theory Spec2Isabelle
  imports Complex_Main "HOL-Library.Sublist" "HOL-Library.Multiset"
begin

section \<open>Constants declared outside the two source files\<close>

text \<open>
  \<^verbatim>\<open>convert_hdf_to_old_hdf.c\<close> and \<^verbatim>\<open>convert_espa_to_gtif.c\<close> use macros of the ESPA
  headers (\<^verbatim>\<open>espa_metadata.h\<close>, \<^verbatim>\<open>envi_header.h\<close>, \<^verbatim>\<open>HE2_config.h\<close>) whose values
  are not part of the two files.  They are taken as parameters: every function of the
  model receives the record below, and every theorem holds for all values of it unless
  it says otherwise.
\<close>

record espa_consts =
  STR_SIZE :: nat
  ESPA_INT_META_FILL :: int
  ESPA_FLOAT_META_FILL :: real
  ESPA_EPSILON :: real
  ESPA_STRING_META_FILL :: string
  MAX_ENVI_BANDS :: nat
  H4_VERSION :: string
  PACKAGE_VERSION :: string

section \<open>The metadata model\<close>

text \<open>
  The structures of \<^verbatim>\<open>espa_metadata.h\<close>, with the fields the two files read.  C
  \<^verbatim>\<open>float\<close> and \<^verbatim>\<open>double\<close> values are modelled as real numbers: the code only
  copies them and compares them with the fill value, and no rounding is modelled.
  Character arrays are strings without the terminating zero; the band array and the
  description arrays are lists, \<^verbatim>\<open>nbands\<close> being the length of the band list.

  The three optional floating-point attributes of a band, \<^verbatim>\<open>scale_factor\<close>,
  \<^verbatim>\<open>add_offset\<close> and \<^verbatim>\<open>calibrated_nt\<close>, are tested in two different ways by
  \<^verbatim>\<open>write_sds_attributes\<close> (\<^verbatim>\<open>!=\<close> and \<^verbatim>\<open>fabs (...) > ESPA_EPSILON\<close>), and the two
  ways differ on the value NaN of a C \<^verbatim>\<open>float\<close>.  These fields therefore are a number
  or NaN.
\<close>

datatype c_float = Finite real | NaN

text \<open>
  The C comparison \<^verbatim>\<open>x != y\<close> of a float field with a number: true when \<open>x\<close> is NaN.
  The C test \<^verbatim>\<open>fabs (x - fill) > eps\<close>: false when \<open>x\<close> is NaN, since every ordered
  comparison with NaN is false.
\<close>

fun float_ne :: "c_float \<Rightarrow> real \<Rightarrow> bool" where
  "float_ne NaN y = True"
| "float_ne (Finite x) y = (x \<noteq> y)"

fun fabs_diff_gt :: "c_float \<Rightarrow> real \<Rightarrow> real \<Rightarrow> bool" where
  "fabs_diff_gt NaN fill eps = False"
| "fabs_diff_gt (Finite x) fill eps = (\<bar>x - fill\<bar> > eps)"

datatype Espa_data_type =
    ESPA_INT8 | ESPA_UINT8 | ESPA_INT16 | ESPA_UINT16
  | ESPA_INT32 | ESPA_UINT32 | ESPA_FLOAT32 | ESPA_FLOAT64
  | ESPA_OTHER

record Espa_class_t =
  class_value :: int
  description :: string

record Espa_band_meta_t =
  name :: string
  long_name :: string
  file_name :: string
  data_type :: Espa_data_type
  nlines :: int
  nsamps :: int
  data_units :: string
  valid_range :: "int \<times> int"
  fill_value :: int
  saturate_value :: int
  scale_factor :: c_float
  add_offset :: c_float
  toa_gain :: real
  toa_bias :: real
  calibrated_nt :: c_float
  nbits :: int
  bitmap_description :: "string list"
  nclass :: int
  class_values :: "Espa_class_t list"
  app_version :: string
  production_date :: string

datatype bounding_coord = ESPA_WEST | ESPA_EAST | ESPA_NORTH | ESPA_SOUTH

record Espa_global_meta_t =
  data_provider :: string
  satellite :: string
  instrument :: string
  acquisition_date :: string
  level1_production_date :: string
  lpgs_metadata_file :: string
  solar_zenith :: real
  solar_azimuth :: real
  wrs_system :: int
  wrs_path :: int
  wrs_row :: int
  ul_corner :: "real \<times> real"
  lr_corner :: "real \<times> real"
  bounding_coords :: "bounding_coord \<Rightarrow> real"

record Espa_internal_meta_t =
  global_meta :: Espa_global_meta_t
  band :: "Espa_band_meta_t list"

section \<open>The HDF library and the other collaborators\<close>

text \<open>
  The functions of the HDF library, \<^verbatim>\<open>put_attr_string\<close>, \<^verbatim>\<open>put_attr_double\<close>,
  \<^verbatim>\<open>write_hdf_eos_attr_old\<close>, \<^verbatim>\<open>create_envi_struct\<close> and \<^verbatim>\<open>write_envi_hdr\<close> are
  not in the two files.  A call of one of them is a value of \<open>hdf_call\<close> holding the
  arguments that matter: for an attribute the object written to, \<^verbatim>\<open>attr.name\<close>, and
  the string (\<^verbatim>\<open>attr.type\<close> is \<^verbatim>\<open>DFNT_CHAR8\<close> and \<^verbatim>\<open>attr.nval\<close> its length) or
  \<^verbatim>\<open>attr.type\<close> and the first \<^verbatim>\<open>attr.nval\<close> entries of \<^verbatim>\<open>dval\<close>.
  \<open>Put_attr_float\<close> is a call of \<^verbatim>\<open>put_attr_double\<close> as well: one whose \<^verbatim>\<open>dval\<close> is
  copied from a float attribute of the band and so may be NaN.
\<close>

datatype dfnt =
    DFNT_CHAR8 | DFNT_INT8 | DFNT_UINT8 | DFNT_INT16 | DFNT_UINT16
  | DFNT_INT32 | DFNT_UINT32 | DFNT_FLOAT32 | DFNT_FLOAT64

text \<open>
  The object an attribute is written to: the file (\<^verbatim>\<open>hdf_id\<close>) or the data set that
  \<^verbatim>\<open>SDcreate\<close> has just returned for a legacy name (\<^verbatim>\<open>sds_id\<close>).
\<close>

datatype hdf_id = File_id | Sds_id string

datatype hdf_call =
    SDstart string
  | SDcreate string dfnt int int
  | SDgetdimid nat
  | SDsetdimname nat string
  | SDsetexternalfile string nat
  | Put_attr_string hdf_id string string
  | Put_attr_double hdf_id string dfnt "real list"
  | Put_attr_float hdf_id string dfnt "c_float list"
  | SDendaccess
  | SDend
  | Write_hdf_eos_attr_old string
  | Create_envi_struct Espa_band_meta_t
  | Write_envi_hdr string

section \<open>Errors\<close>

text \<open>
  Every \<^verbatim>\<open>return (ERROR)\<close> of the source is one of these values.  The string of
  \<open>Overflow\<close> is the text handed to \<^verbatim>\<open>error_handler\<close>, the string of
  \<open>Band_not_found\<close> is the modern band name printed in the message, and
  \<open>Call_failed\<close> is the failure of a call of a collaborator.  \<open>Out_of_bounds\<close> stands
  for a read beyond the end of an array, which the C code does not check (undefined
  behaviour): the model stops there.  A caller that wraps the error of its callee in a
  message of its own returns the same \<^verbatim>\<open>ERROR\<close>; the model keeps the first error.
\<close>

datatype error =
    Overflow string
  | Unsupported_data_type
  | Band_not_found string
  | Too_many_bands
  | Out_of_bounds
  | Call_failed hdf_call

section \<open>Scripts: the calls a function makes, in order\<close>

text \<open>
  The functions of \<^verbatim>\<open>convert_hdf_to_old_hdf.c\<close> are straight sequences of calls of the
  collaborators, each followed by \<^verbatim>\<open>if (... != SUCCESS) return (ERROR)\<close>, with the
  checks of the function itself in between.  What a call returns is a status or a
  handle (\<^verbatim>\<open>hdf_id\<close>, \<^verbatim>\<open>sds_id\<close>, \<^verbatim>\<open>dim_id\<close>) that is tested for failure and
  handed to later calls, never data that decides what is done next.  So a function is
  modelled by what it does as long as every call succeeds: the list of the calls, in
  order, and the error of its own, if there is one, at which it stops.  \<open>run\<close>
  executes such a script against a library that may refuse any call.  Messages to
  \<^verbatim>\<open>error_handler\<close> and \<^verbatim>\<open>printf\<close> are not modelled.
\<close>

type_synonym script = "hdf_call list \<times> error option"

definition calls :: "hdf_call list \<Rightarrow> script" where
  "calls cs = (cs, None)"

definition fail :: "error \<Rightarrow> script" where
  "fail e = ([], Some e)"

definition seq :: "script \<Rightarrow> script \<Rightarrow> script" where
  "seq p q = (case snd p of Some e \<Rightarrow> p | None \<Rightarrow> (fst p @ fst q, snd q))"

text \<open>The return values of \<^verbatim>\<open>SDendaccess\<close> and \<^verbatim>\<open>SDend\<close> are not looked at.\<close>

fun result_ignored :: "hdf_call \<Rightarrow> bool" where
  "result_ignored SDendaccess = True"
| "result_ignored SDend = True"
| "result_ignored _ = False"

text \<open>
  \<open>run lib p\<close>: the library \<open>lib\<close> says, from the calls done so far and the next
  call, whether that call succeeds; the first call that fails ends the run with
  \<open>Call_failed\<close>.  The result is \<^verbatim>\<open>SUCCESS\<close> (\<open>None\<close>) or the error, and the calls
  that were carried out.
\<close>

fun run_calls ::
  "(hdf_call list \<Rightarrow> hdf_call \<Rightarrow> bool) \<Rightarrow> hdf_call list \<Rightarrow> hdf_call list \<Rightarrow>
   error option \<Rightarrow> error option \<times> hdf_call list" where
  "run_calls lib done [] e = (e, done)"
| "run_calls lib done (x # xs) e =
     (if result_ignored x \<or> lib done x then run_calls lib (done @ [x]) xs e
      else (Some (Call_failed x), done))"

definition run ::
  "(hdf_call list \<Rightarrow> hdf_call \<Rightarrow> bool) \<Rightarrow> script \<Rightarrow> error option \<times> hdf_call list" where
  "run lib p = run_calls lib [] (fst p) (snd p)"

section \<open>Global attributes (\<^verbatim>\<open>write_global_attributes\<close>)\<close>

text \<open>
  The test \<^verbatim>\<open>fabs (band[0].toa_gain - ESPA_FLOAT_META_FILL) > ESPA_EPSILON &&
  fabs (band[0].toa_bias - ESPA_FLOAT_META_FILL) > ESPA_EPSILON\<close>.
\<close>

definition gain_bias_exist :: "espa_consts \<Rightarrow> Espa_band_meta_t \<Rightarrow> bool" where
  "gain_bias_exist c b \<longleftrightarrow>
     \<bar>toa_gain b - ESPA_FLOAT_META_FILL c\<bar> > ESPA_EPSILON c \<and>
     \<bar>toa_bias b - ESPA_FLOAT_META_FILL c\<bar> > ESPA_EPSILON c"

text \<open>\<^verbatim>\<open>xml_metadata->band[i]\<close>; the array has \<^verbatim>\<open>nbands\<close> entries.\<close>

definition band_at :: "Espa_band_meta_t list \<Rightarrow> nat \<Rightarrow> error + Espa_band_meta_t" where
  "band_at bands i = (if i < length bands then Inr (bands ! i) else Inl Out_of_bounds)"

text \<open>
  The local arrays \<^verbatim>\<open>gain\<close>, \<^verbatim>\<open>bias\<close>, \<^verbatim>\<open>gain_thm\<close>, \<^verbatim>\<open>bias_thm\<close> with their
  counts \<^verbatim>\<open>ngain_bias\<close> and \<^verbatim>\<open>ngain_bias_thm\<close>: the lists hold the entries written,
  and the counts are their lengths.
\<close>

record calibration =
  gain :: "real list"
  bias :: "real list"
  gain_thm :: "real list"
  bias_thm :: "real list"

definition no_calibration :: calibration where
  "no_calibration = \<lparr>gain = [], bias = [], gain_thm = [], bias_thm = []\<rparr>"

datatype band_class = Reflective | Thermal | Skipped

text \<open>The tests on \<^verbatim>\<open>i\<close> in the three loops, in the order of the source.\<close>

definition tm_class :: "nat \<Rightarrow> band_class" where
  "tm_class i = (if i \<noteq> 5 then Reflective else Thermal)"

definition etm_class :: "nat \<Rightarrow> band_class" where
  "etm_class i = (if i \<noteq> 5 \<and> i \<noteq> 6 then Reflective else Thermal)"

definition oli_class :: "nat \<Rightarrow> band_class" where
  "oli_class i =
     (if i = 9 \<or> i = 10 then Thermal else if i \<noteq> 7 then Reflective else Skipped)"

text \<open>
  One loop over the band indices: a reflective band is appended to \<^verbatim>\<open>gain\<close> and
  \<^verbatim>\<open>bias\<close> (\<^verbatim>\<open>refl_count++\<close>), a thermal band to \<^verbatim>\<open>gain_thm\<close> and \<^verbatim>\<open>bias_thm\<close>
  (for TM the single thermal band is written at index 0).
\<close>

fun gain_bias_loop ::
  "(nat \<Rightarrow> band_class) \<Rightarrow> Espa_band_meta_t list \<Rightarrow> nat list \<Rightarrow> calibration \<Rightarrow>
   error + calibration" where
  "gain_bias_loop cls bands [] cal = Inr cal"
| "gain_bias_loop cls bands (i # rest) cal =
     (case cls i of
        Skipped \<Rightarrow> gain_bias_loop cls bands rest cal
      | Reflective \<Rightarrow>
          (case band_at bands i of
             Inl e \<Rightarrow> Inl e
           | Inr b \<Rightarrow> gain_bias_loop cls bands rest
               (cal\<lparr>gain := gain cal @ [toa_gain b], bias := bias cal @ [toa_bias b]\<rparr>))
      | Thermal \<Rightarrow>
          (case band_at bands i of
             Inl e \<Rightarrow> Inl e
           | Inr b \<Rightarrow> gain_bias_loop cls bands rest
               (cal\<lparr>gain_thm := gain_thm cal @ [toa_gain b],
                    bias_thm := bias_thm cal @ [toa_bias b]\<rparr>)))"

text \<open>
  Lines 261 to 375: the branch on the instrument, the test of band 0 and the loop
  (\<^verbatim>\<open>i < 7\<close>, \<^verbatim>\<open>i < 8\<close>, \<^verbatim>\<open>i < 11\<close>).  \<^verbatim>\<open>strncmp (instrument, "ETM", 3)\<close> compares the
  first three characters.
\<close>

definition guarded_loop ::
  "espa_consts \<Rightarrow> (nat \<Rightarrow> band_class) \<Rightarrow> Espa_band_meta_t list \<Rightarrow> nat list \<Rightarrow>
   error + calibration" where
  "guarded_loop c cls bands idx =
     (case band_at bands 0 of
        Inl e \<Rightarrow> Inl e
      | Inr b0 \<Rightarrow>
          if gain_bias_exist c b0 then gain_bias_loop cls bands idx no_calibration
          else Inr no_calibration)"

definition gains_and_biases ::
  "espa_consts \<Rightarrow> string \<Rightarrow> Espa_band_meta_t list \<Rightarrow> error + calibration" where
  "gains_and_biases c inst bands =
     (if inst = ''TM'' then guarded_loop c tm_class bands [0, 1, 2, 3, 4, 5, 6]
      else if take 3 inst = ''ETM'' then
        guarded_loop c etm_class bands [0, 1, 2, 3, 4, 5, 6, 7]
      else if inst = ''OLI_TIRS'' then
        guarded_loop c oli_class bands [0, 1, 2, 3, 4, 5, 6, 7, 8, 9, 10]
      else Inr no_calibration)"

text \<open>Lines 377 to 435: the reflective and the thermal attributes.\<close>

definition put_refl_thm :: "hdf_id \<Rightarrow> calibration \<Rightarrow> hdf_call list" where
  "put_refl_thm hdf cal =
     (if length (gain cal) > 0
      then [Put_attr_double hdf ''ReflGains'' DFNT_FLOAT64 (gain cal),
            Put_attr_double hdf ''ReflBias'' DFNT_FLOAT64 (bias cal)]
      else []) @
     (if length (gain_thm cal) > 0
      then [Put_attr_double hdf ''ThermalGains'' DFNT_FLOAT64 (gain_thm cal),
            Put_attr_double hdf ''ThermalBias'' DFNT_FLOAT64 (bias_thm cal)]
      else [])"

text \<open>Lines 437 to 471: the panchromatic band, index 8 for ETM+ and 7 for OLI_TIRS.\<close>

definition put_pan ::
  "hdf_id \<Rightarrow> string \<Rightarrow> Espa_band_meta_t list \<Rightarrow> calibration \<Rightarrow> script" where
  "put_pan hdf inst bands cal =
     (if (take 3 inst = ''ETM'' \<or> inst = ''OLI_TIRS'') \<and> length (gain cal) > 0 then
        (case band_at bands (if take 3 inst = ''ETM'' then 8 else 7) of
           Inl e \<Rightarrow> fail e
         | Inr b \<Rightarrow>
             calls [Put_attr_double hdf ''PanGain'' DFNT_FLOAT64 [toa_gain b],
                    Put_attr_double hdf ''PanBias'' DFNT_FLOAT64 [toa_bias b]])
      else calls [])"

text \<open>Lines 256 to 471 together: the calibration attributes of the file.\<close>

definition write_calibration ::
  "espa_consts \<Rightarrow> hdf_id \<Rightarrow> string \<Rightarrow> Espa_band_meta_t list \<Rightarrow> script" where
  "write_calibration c hdf inst bands =
     (case gains_and_biases c inst bands of
        Inl e \<Rightarrow> fail e
      | Inr cal \<Rightarrow> seq (calls (put_refl_thm hdf cal)) (put_pan hdf inst bands cal))"

definition write_global_attributes ::
  "espa_consts \<Rightarrow> hdf_id \<Rightarrow> Espa_internal_meta_t \<Rightarrow> script" where
  "write_global_attributes c hdf xml =
     (let gmeta = global_meta xml in
      seq (calls
        [Put_attr_string hdf ''DataProvider'' (data_provider gmeta),
         Put_attr_string hdf ''Satellite'' (satellite gmeta),
         Put_attr_string hdf ''Instrument'' (instrument gmeta),
         Put_attr_string hdf ''AcquisitionDate'' (acquisition_date gmeta),
         Put_attr_string hdf ''Level1ProductionDate'' (level1_production_date gmeta),
         Put_attr_string hdf ''LPGSMetadataFile'' (lpgs_metadata_file gmeta),
         Put_attr_double hdf ''SolarZenith'' DFNT_FLOAT32 [solar_zenith gmeta],
         Put_attr_double hdf ''SolarAzimuth'' DFNT_FLOAT32 [solar_azimuth gmeta],
         Put_attr_double hdf ''WRS_System'' DFNT_INT16 [real_of_int (wrs_system gmeta)],
         Put_attr_double hdf ''WRS_Path'' DFNT_INT16 [real_of_int (wrs_path gmeta)],
         Put_attr_double hdf ''WRS_Row'' DFNT_INT16 [real_of_int (wrs_row gmeta)]])
     (seq (write_calibration c hdf (instrument gmeta) (band xml))
     (seq (calls
        [Put_attr_double hdf ''UpperLeftCornerLatLong'' DFNT_FLOAT64
           [fst (ul_corner gmeta), snd (ul_corner gmeta)],
         Put_attr_double hdf ''LowerRightCornerLatLong'' DFNT_FLOAT64
           [fst (lr_corner gmeta), snd (lr_corner gmeta)],
         Put_attr_double hdf ''WestBoundingCoordinate'' DFNT_FLOAT64
           [bounding_coords gmeta ESPA_WEST],
         Put_attr_double hdf ''EastBoundingCoordinate'' DFNT_FLOAT64
           [bounding_coords gmeta ESPA_EAST],
         Put_attr_double hdf ''NorthBoundingCoordinate'' DFNT_FLOAT64
           [bounding_coords gmeta ESPA_NORTH],
         Put_attr_double hdf ''SouthBoundingCoordinate'' DFNT_FLOAT64
           [bounding_coords gmeta ESPA_SOUTH],
         Put_attr_string hdf ''HDFVersion'' (H4_VERSION c),
         Put_attr_string hdf ''HDFEOSVersion'' (PACKAGE_VERSION c)])
     (case band_at (band xml) 0 of
        Inl e \<Rightarrow> fail e
      | Inr b0 \<Rightarrow> calls [Put_attr_string hdf ''ProductionDate'' (production_date b0)]))))"

section \<open>Band attributes (\<^verbatim>\<open>write_sds_attributes\<close>)\<close>

text \<open>The conversion \<^verbatim>\<open>%d\<close> of \<^verbatim>\<open>snprintf\<close>: decimal digits, with a sign.\<close>

function dec_digits :: "nat \<Rightarrow> string" where
  "dec_digits n =
     (if n < 10 then [''0123456789'' ! n]
      else dec_digits (n div 10) @ [''0123456789'' ! (n mod 10)])"
  by pat_completeness auto
termination
  by (relation "measure (\<lambda>n. n)") auto

declare dec_digits.simps [simp del]

definition format_d :: "int \<Rightarrow> string" where
  "format_d i = (if i < 0 then ''-'' @ dec_digits (nat (- i)) else dec_digits (nat i))"

text \<open>
  The format \<^verbatim>\<open>"\t%d      %s\n"\<close> of one line of a description, and the two
  headers.
\<close>

definition description_line :: "int \<Rightarrow> string \<Rightarrow> string" where
  "description_line n text =
     [CHR 0x09] @ format_d n @ ''      '' @ text @ [CHR 0x0A]"

definition bitmap_header :: string where
  "bitmap_header =
     [CHR 0x0A, CHR 0x09] @
     ''Bits are numbered from right to left (bit 0 = LSB, bit N = MSB):'' @
     [CHR 0x0A, CHR 0x09] @ ''Bit    Description'' @ [CHR 0x0A]"

definition class_header :: string where
  "class_header = [CHR 0x0A, CHR 0x09] @ ''Class  Description'' @ [CHR 0x0A]"

text \<open>\<^verbatim>\<open>char message[5000]\<close>.\<close>

definition message_size :: nat where
  "message_size = 5000"

text \<open>
  \<^verbatim>\<open>tmp_msg\<close> of the loop over the bits: \<^verbatim>\<open>bitmap_description[i]\<close> is read, the
  array holding as many strings as the parser allocated; and of the loop over the
  classes, which reads \<^verbatim>\<open>class_values[i]\<close>.
\<close>

definition bit_line :: "Espa_band_meta_t \<Rightarrow> nat \<Rightarrow> error + string" where
  "bit_line bmeta i =
     (if i < length (bitmap_description bmeta)
      then Inr (description_line (int i) (bitmap_description bmeta ! i))
      else Inl Out_of_bounds)"

definition class_line :: "Espa_band_meta_t \<Rightarrow> nat \<Rightarrow> error + string" where
  "class_line bmeta i =
     (if i < length (class_values bmeta)
      then Inr (description_line (class_value (class_values bmeta ! i))
                  (description (class_values bmeta ! i)))
      else Inl Out_of_bounds)"

text \<open>
  The body of both loops: \<^verbatim>\<open>snprintf\<close> into \<^verbatim>\<open>tmp_msg\<close> (\<^verbatim>\<open>STR_SIZE\<close> bytes; the
  count it returns is the length of the whole line), the test
  \<^verbatim>\<open>strlen (message) + strlen (tmp_msg) >= sizeof (message)\<close>, and \<^verbatim>\<open>strcat\<close>.
\<close>

fun message_loop ::
  "espa_consts \<Rightarrow> (nat \<Rightarrow> error + string) \<Rightarrow> nat list \<Rightarrow> string \<Rightarrow> error + string" where
  "message_loop c line [] message = Inr message"
| "message_loop c line (i # rest) message =
     (case line i of
        Inl e \<Rightarrow> Inl e
      | Inr tmp_msg \<Rightarrow>
          if length tmp_msg \<ge> STR_SIZE c then Inl (Overflow ''Overflow of tmp_msg string'')
          else if length message + length tmp_msg \<ge> message_size
          then Inl (Overflow ''Overflow of message string'')
          else message_loop c line rest (message @ tmp_msg))"

text \<open>
  The first \<^verbatim>\<open>snprintf\<close>, of the header into \<^verbatim>\<open>message\<close>, with its test, and the
  loop \<^verbatim>\<open>for (i = 0; i < n; i++)\<close>.
\<close>

definition build_message ::
  "espa_consts \<Rightarrow> string \<Rightarrow> (nat \<Rightarrow> error + string) \<Rightarrow> int \<Rightarrow> error + string" where
  "build_message c header line n =
     (if length header \<ge> message_size then Inl (Overflow ''Overflow of message string'')
      else message_loop c line [0..<nat n] header)"

definition bitmap_message :: "espa_consts \<Rightarrow> Espa_band_meta_t \<Rightarrow> error + string" where
  "bitmap_message c bmeta = build_message c bitmap_header (bit_line bmeta) (nbits bmeta)"

definition class_message :: "espa_consts \<Rightarrow> Espa_band_meta_t \<Rightarrow> error + string" where
  "class_message c bmeta = build_message c class_header (class_line bmeta) (nclass bmeta)"

text \<open>
  A description attribute: written when the count is neither the fill value nor zero
  or less, after the message has been built.
\<close>

definition put_description ::
  "espa_consts \<Rightarrow> hdf_id \<Rightarrow> int \<Rightarrow> string \<Rightarrow> error + string \<Rightarrow> script" where
  "put_description c sds n attr_name message =
     (if n \<noteq> ESPA_INT_META_FILL c \<and> n > 0 then
        (case message of
           Inl e \<Rightarrow> fail e
         | Inr m \<Rightarrow> calls [Put_attr_string sds attr_name m])
      else calls [])"

text \<open>
  The attributes up to \<^verbatim>\<open>calibrated_nt\<close>.  \<^verbatim>\<open>scale_factor\<close> and \<^verbatim>\<open>add_offset\<close> are
  compared with \<^verbatim>\<open>ESPA_INT_META_FILL\<close> by \<^verbatim>\<open>!=\<close> (lines 682 and 698),
  \<^verbatim>\<open>calibrated_nt\<close> (line 713) with
  \<^verbatim>\<open>ESPA_FLOAT_META_FILL\<close> within \<^verbatim>\<open>ESPA_EPSILON\<close>.
\<close>

definition numeric_attributes ::
  "espa_consts \<Rightarrow> hdf_id \<Rightarrow> Espa_band_meta_t \<Rightarrow> hdf_call list" where
  "numeric_attributes c sds bmeta =
     (if fst (valid_range bmeta) \<noteq> ESPA_INT_META_FILL c \<and>
         snd (valid_range bmeta) \<noteq> ESPA_INT_META_FILL c
      then [Put_attr_double sds ''valid_range'' DFNT_INT32
              [real_of_int (fst (valid_range bmeta)), real_of_int (snd (valid_range bmeta))]]
      else []) @
     [Put_attr_double sds ''_FillValue'' DFNT_INT32 [real_of_int (fill_value bmeta)]] @
     (if saturate_value bmeta \<noteq> ESPA_INT_META_FILL c
      then [Put_attr_double sds ''_SaturateValue'' DFNT_INT32
              [real_of_int (saturate_value bmeta)]]
      else []) @
     (if float_ne (scale_factor bmeta) (real_of_int (ESPA_INT_META_FILL c))
      then [Put_attr_float sds ''scale_factor'' DFNT_FLOAT32 [scale_factor bmeta]]
      else []) @
     (if float_ne (add_offset bmeta) (real_of_int (ESPA_INT_META_FILL c))
      then [Put_attr_float sds ''add_offset'' DFNT_FLOAT64 [add_offset bmeta]]
      else []) @
     (if fabs_diff_gt (calibrated_nt bmeta) (ESPA_FLOAT_META_FILL c) (ESPA_EPSILON c)
      then [Put_attr_float sds ''calibrated_nt'' DFNT_FLOAT32 [calibrated_nt bmeta]]
      else [])"

definition write_sds_attributes ::
  "espa_consts \<Rightarrow> hdf_id \<Rightarrow> Espa_band_meta_t \<Rightarrow> script" where
  "write_sds_attributes c sds bmeta =
     seq (calls
       ([Put_attr_string sds ''long_name'' (long_name bmeta),
         Put_attr_string sds ''units'' (data_units bmeta)] @
        numeric_attributes c sds bmeta))
     (seq (put_description c sds (nbits bmeta) ''Bitmap description''
             (bitmap_message c bmeta))
     (seq (put_description c sds (nclass bmeta) ''Class description''
             (class_message c bmeta))
     (calls
        (if app_version bmeta \<noteq> ESPA_STRING_META_FILL c
         then [Put_attr_string sds ''app_version'' (app_version bmeta)]
         else []))))"

section \<open>The legacy file (\<^verbatim>\<open>create_hdf_metadata\<close>)\<close>

text \<open>The table \<^verbatim>\<open>hdfname_mapping\<close>: modern name, legacy name; \<^verbatim>\<open>NOLD_SR\<close> rows.\<close>

definition NOLD_SR :: nat where
  "NOLD_SR = 17"

definition hdfname_mapping :: "(string \<times> string) list" where
  "hdfname_mapping =
     [(''sr_band1'', ''band1''),
      (''sr_band2'', ''band2''),
      (''sr_band3'', ''band3''),
      (''sr_band4'', ''band4''),
      (''sr_band5'', ''band5''),
      (''sr_band7'', ''band7''),
      (''sr_atmos_opacity'', ''atmos_opacity''),
      (''sr_fill_qa'', ''fill_QA''),
      (''sr_ddv_qa'', ''DDV_QA''),
      (''sr_cloud_qa'', ''cloud_QA''),
      (''sr_cloud_shadow_qa'', ''cloud_shadow_QA''),
      (''sr_snow_qa'', ''snow_QA''),
      (''sr_land_water_qa'', ''land_water_QA''),
      (''sr_adjacent_cloud_qa'', ''adjacent_cloud_QA''),
      (''toa_band6'', ''band6''),
      (''toa_band6_qa'', ''band6_fill_QA''),
      (''fmask'', ''fmask_band'')]"

text \<open>The \<^verbatim>\<open>switch\<close> on the data type of the band.\<close>

fun hdf_data_type :: "Espa_data_type \<Rightarrow> error + dfnt" where
  "hdf_data_type ESPA_INT8 = Inr DFNT_INT8"
| "hdf_data_type ESPA_UINT8 = Inr DFNT_UINT8"
| "hdf_data_type ESPA_INT16 = Inr DFNT_INT16"
| "hdf_data_type ESPA_UINT16 = Inr DFNT_UINT16"
| "hdf_data_type ESPA_INT32 = Inr DFNT_INT32"
| "hdf_data_type ESPA_UINT32 = Inr DFNT_UINT32"
| "hdf_data_type ESPA_FLOAT32 = Inr DFNT_FLOAT32"
| "hdf_data_type ESPA_FLOAT64 = Inr DFNT_FLOAT64"
| "hdf_data_type ESPA_OTHER = Inl Unsupported_data_type"

text \<open>
  The body of the inner loop for a band whose name is the modern name of the slot:
  the data type, \<^verbatim>\<open>SDcreate\<close> under the legacy name, the two dimension names, the
  external file, the attributes of the band, \<^verbatim>\<open>SDendaccess\<close>.
\<close>

definition create_sds :: "espa_consts \<Rightarrow> string \<times> string \<Rightarrow> Espa_band_meta_t \<Rightarrow> script" where
  "create_sds c slot bmeta =
     (case hdf_data_type (data_type bmeta) of
        Inl e \<Rightarrow> fail e
      | Inr dt \<Rightarrow>
          seq (calls
            [SDcreate (snd slot) dt (nlines bmeta) (nsamps bmeta),
             SDgetdimid 0, SDsetdimname 0 ''YDim'',
             SDgetdimid 1, SDsetdimname 1 ''XDim'',
             SDsetexternalfile (file_name bmeta) 0])
          (seq (write_sds_attributes c (Sds_id (snd slot)) bmeta)
               (calls [SDendaccess])))"

text \<open>
  The inner loop \<^verbatim>\<open>for (i = 0; i < nbands; i++)\<close>: a band of another name is
  skipped (\<^verbatim>\<open>continue\<close>), every band of the name is written; there is no \<^verbatim>\<open>break\<close>.
\<close>

fun band_loop :: "espa_consts \<Rightarrow> string \<times> string \<Rightarrow> Espa_band_meta_t list \<Rightarrow> script" where
  "band_loop c slot [] = calls []"
| "band_loop c slot (bmeta # rest) =
     (if name bmeta \<noteq> fst slot then band_loop c slot rest
      else seq (create_sds c slot bmeta) (band_loop c slot rest))"

text \<open>
  \<^verbatim>\<open>bnd_found\<close> at the end of the inner loop: set as soon as one band has the name.
\<close>

definition bnd_found :: "string \<times> string \<Rightarrow> Espa_band_meta_t list \<Rightarrow> bool" where
  "bnd_found slot bands = list_ex (\<lambda>bmeta. name bmeta = fst slot) bands"

text \<open>
  The outer loop \<^verbatim>\<open>for (bnd = 0; bnd < NOLD_SR; bnd++)\<close> over the rows of the table,
  each with its index \<^verbatim>\<open>bnd\<close>.
\<close>

fun sds_loop ::
  "espa_consts \<Rightarrow> Espa_band_meta_t list \<Rightarrow> (nat \<times> string \<times> string) list \<Rightarrow> script" where
  "sds_loop c bands [] = calls []"
| "sds_loop c bands ((bnd, slot) # slots) =
     seq (band_loop c slot bands)
       (if \<not> bnd_found slot bands \<and> bnd \<noteq> NOLD_SR - 1
        then fail (Band_not_found (fst slot))
        else sds_loop c bands slots)"

text \<open>
  \<^verbatim>\<open>create_hdf_metadata\<close>: \<^verbatim>\<open>SDstart\<close>, the loop over the table, the global attributes
  written to the file, \<^verbatim>\<open>SDend\<close> and \<^verbatim>\<open>write_hdf_eos_attr_old\<close>.
\<close>

definition create_hdf_metadata ::
  "espa_consts \<Rightarrow> string \<Rightarrow> Espa_internal_meta_t \<Rightarrow> script" where
  "create_hdf_metadata c hdf_file xml =
     seq (calls [SDstart hdf_file])
     (seq (sds_loop c (band xml) (enumerate 0 hdfname_mapping))
     (seq (write_global_attributes c File_id xml)
          (calls [SDend, Write_hdf_eos_attr_old hdf_file])))"

section \<open>The conversion (\<^verbatim>\<open>convert_hdf_to_old_hdf\<close>)\<close>

text \<open>
  The search for the band of the ENVI header: \<^verbatim>\<open>indx = -99\<close>, and every band whose
  name is \<^verbatim>\<open>hdfname_mapping[0][0]\<close> sets \<^verbatim>\<open>indx = i\<close>.
\<close>

fun indx_loop :: "Espa_band_meta_t list \<Rightarrow> nat \<Rightarrow> int \<Rightarrow> int" where
  "indx_loop [] i indx = indx"
| "indx_loop (bmeta # rest) i indx =
     indx_loop rest (Suc i) (if name bmeta = fst (hd hdfname_mapping) then int i else indx)"

definition envi_indx :: "Espa_band_meta_t list \<Rightarrow> int" where
  "envi_indx bands = indx_loop bands 0 (- 99)"

text \<open>
  The conversion from the parsed metadata on (validation and parsing of the XML file
  come before and are not in the file): the legacy file, \<^verbatim>\<open>create_envi_struct\<close> on
  \<^verbatim>\<open>band[indx]\<close>, the test against \<^verbatim>\<open>MAX_ENVI_BANDS\<close>, the name of the header file
  (\<^verbatim>\<open>snprintf\<close> of \<^verbatim>\<open>"%s.hdr"\<close> into \<^verbatim>\<open>STR_SIZE\<close> bytes) and \<^verbatim>\<open>write_envi_hdr\<close>.
  The \<^verbatim>\<open>snprintf\<close> of the fixed text \<^verbatim>\<open>"HDF scientific data"\<close> into
  \<^verbatim>\<open>envi_hdr.file_type\<close>, a field declared in \<^verbatim>\<open>envi_header.h\<close>, is left out.
\<close>

definition convert_hdf_to_old_hdf ::
  "espa_consts \<Rightarrow> string \<Rightarrow> Espa_internal_meta_t \<Rightarrow> script" where
  "convert_hdf_to_old_hdf c hdf_file xml =
     seq (create_hdf_metadata c hdf_file xml)
       (let indx = envi_indx (band xml) in
        if indx < 0 \<or> indx \<ge> int (length (band xml)) then fail Out_of_bounds
        else
          seq (calls [Create_envi_struct (band xml ! nat indx)])
            (if length (band xml) > MAX_ENVI_BANDS c then fail Too_many_bands
             else if length (hdf_file @ ''.hdr'') \<ge> STR_SIZE c
             then fail (Overflow ''Overflow of hdr_file string'')
             else calls [Write_envi_hdr (hdf_file @ ''.hdr'')]))"

section \<open>Attribute names and example data\<close>

text \<open>The name under which a call writes an attribute (empty for the other calls).\<close>

fun attr_name :: "hdf_call \<Rightarrow> string" where
  "attr_name (Put_attr_string hdf n s) = n"
| "attr_name (Put_attr_double hdf n t vs) = n"
| "attr_name (Put_attr_float hdf n t vs) = n"
| "attr_name _ = []"

definition calibration_attr_names :: "string list" where
  "calibration_attr_names =
     [''ReflGains'', ''ReflBias'', ''ThermalGains'', ''ThermalBias'', ''PanGain'', ''PanBias'']"

text \<open>
  An instance of the constants and a scene of seventeen bands, one per row of the
  table, band \<open>i\<close> (from 0) with gain \<open>i + 1\<close> and bias \<open>- (i + 1)\<close>; the theorems
  below are applied to them.
\<close>

definition example_consts :: espa_consts where
  "example_consts =
     \<lparr>STR_SIZE = 1024, ESPA_INT_META_FILL = - 3333, ESPA_FLOAT_META_FILL = - 3333,
      ESPA_EPSILON = 1 / 100000, ESPA_STRING_META_FILL = ''undefined'',
      MAX_ENVI_BANDS = 100, H4_VERSION = ''4.2'', PACKAGE_VERSION = ''2.19''\<rparr>"

definition example_band :: "string \<Rightarrow> real \<Rightarrow> real \<Rightarrow> Espa_band_meta_t" where
  "example_band n g b =
     \<lparr>name = n, long_name = ''band'', file_name = n @ ''.img'', data_type = ESPA_INT16,
      nlines = 100, nsamps = 100, data_units = ''reflectance'',
      valid_range = (- 2000, 16000), fill_value = - 9999, saturate_value = 20000,
      scale_factor = Finite (1 / 10000), add_offset = Finite 0, toa_gain = g,
      toa_bias = b, calibrated_nt = Finite (- 3333), nbits = - 3333, bitmap_description = [],
      nclass = - 3333, class_values = [], app_version = ''undefined'',
      production_date = ''2014-08-07''\<rparr>"

definition example_bands :: "Espa_band_meta_t list" where
  "example_bands =
     map (\<lambda>(i, slot). example_band (fst slot) (real i + 1) (- real i - 1))
       (enumerate 0 hdfname_mapping)"

definition example_global :: "string \<Rightarrow> Espa_global_meta_t" where
  "example_global inst =
     \<lparr>data_provider = ''USGS/EROS'', satellite = ''LANDSAT'', instrument = inst,
      acquisition_date = ''2014-01-01'', level1_production_date = ''2014-01-02'',
      lpgs_metadata_file = ''scene_MTL.txt'', solar_zenith = 40, solar_azimuth = 150,
      wrs_system = 2, wrs_path = 30, wrs_row = 30, ul_corner = (45, - 100),
      lr_corner = (43, - 97), bounding_coords = (\<lambda>d. 0)\<rparr>"

definition example_scene :: "string \<Rightarrow> Espa_internal_meta_t" where
  "example_scene inst = \<lparr>global_meta = example_global inst, band = example_bands\<rparr>"

text \<open>The same scene with gain and bias of band 0 at the fill value.\<close>

definition sentinel_scene :: "string \<Rightarrow> Espa_internal_meta_t" where
  "sentinel_scene inst =
     \<lparr>global_meta = example_global inst,
      band = example_bands[0 := example_band ''sr_band1'' (- 3333) (- 3333)]\<rparr>"

text \<open>
  The blocks as the specification describes them: the header, then one line per bit
  (per class), nothing cut.  They are what the messages built by the code are
  compared with.
\<close>

definition bitmap_block :: "Espa_band_meta_t \<Rightarrow> string" where
  "bitmap_block bmeta =
     bitmap_header @
     concat (map (\<lambda>i. description_line (int i) (bitmap_description bmeta ! i))
               [0..<nat (nbits bmeta)])"

definition class_block :: "Espa_band_meta_t \<Rightarrow> string" where
  "class_block bmeta =
     class_header @
     concat (map (\<lambda>i. description_line (class_value (class_values bmeta ! i))
                         (description (class_values bmeta ! i)))
               [0..<nat (nclass bmeta)])"

text \<open>Bands with bit and class descriptions that fit, and with ones that do not.\<close>

definition qa_band :: Espa_band_meta_t where
  "qa_band = (example_band ''sr_cloud_qa'' 1 1)
     \<lparr>nbits := 2, bitmap_description := [''fill'', ''cloud'']\<rparr>"

text \<open>The legacy names of the data sets a list of calls creates, in order.\<close>

fun created_sds :: "hdf_call list \<Rightarrow> string list" where
  "created_sds [] = []"
| "created_sds (SDcreate n t l s # cs) = n # created_sds cs"
| "created_sds (x # cs) = created_sds cs"

text \<open>
  The order of the specification: the legacy names in the order of the table, one
  for each band that has the modern name of the row.
\<close>

definition table_order :: "Espa_band_meta_t list \<Rightarrow> (string \<times> string) list \<Rightarrow> string list" where
  "table_order bands table =
     concat (map (\<lambda>slot. replicate (length (filter (\<lambda>b. name b = fst slot) bands)) (snd slot))
               table)"

text \<open>
  The test of line 1013 on a row with its index: the band was not found and the row
  is not the last one.
\<close>

definition required_missing :: "Espa_band_meta_t list \<Rightarrow> nat \<times> string \<times> string \<Rightarrow> bool" where
  "required_missing bands s \<longleftrightarrow> \<not> bnd_found (snd s) bands \<and> fst s \<noteq> NOLD_SR - 1"

text \<open>A band of a data type that the \<^verbatim>\<open>switch\<close> does not know.\<close>

definition unsupported_band :: Espa_band_meta_t where
  "unsupported_band = (example_band ''sr_band1'' 1 (- 1))\<lparr>data_type := ESPA_OTHER\<rparr>"

text \<open>
  A band whose name is in no row of the table, with a gain, a bias and a production
  date that no band of the example scene has.
\<close>

definition junk_band :: Espa_band_meta_t where
  "junk_band = (example_band ''junk'' 99 (- 99))\<lparr>production_date := ''1999-12-31''\<rparr>"


text \<open>
  The tests of lines 728 and 773 on a count, and the condition that every line of a
  description fits \<^verbatim>\<open>tmp_msg\<close>, the array it is read from being long enough.
\<close>

definition description_present :: "espa_consts \<Rightarrow> int \<Rightarrow> bool" where
  "description_present c n \<longleftrightarrow> n \<noteq> ESPA_INT_META_FILL c \<and> n > 0"

definition bit_lines_fit :: "espa_consts \<Rightarrow> Espa_band_meta_t \<Rightarrow> bool" where
  "bit_lines_fit c bmeta \<longleftrightarrow>
     nat (nbits bmeta) \<le> length (bitmap_description bmeta) \<and>
     list_all (\<lambda>i. length (description_line (int i) (bitmap_description bmeta ! i))
                     < STR_SIZE c) [0..<nat (nbits bmeta)]"

definition class_lines_fit :: "espa_consts \<Rightarrow> Espa_band_meta_t \<Rightarrow> bool" where
  "class_lines_fit c bmeta \<longleftrightarrow>
     nat (nclass bmeta) \<le> length (class_values bmeta) \<and>
     list_all (\<lambda>i. length (description_line (class_value (class_values bmeta ! i))
                               (description (class_values bmeta ! i)))
                     < STR_SIZE c) [0..<nat (nclass bmeta)]"

text \<open>
  The bit descriptions, if there are any, are written: what has to hold for the
  function to reach the class descriptions.
\<close>

definition bits_written :: "espa_consts \<Rightarrow> Espa_band_meta_t \<Rightarrow> bool" where
  "bits_written c bmeta \<longleftrightarrow>
     \<not> description_present c (nbits bmeta) \<or>
     (bit_lines_fit c bmeta \<and> length (bitmap_block bmeta) < message_size)"

definition class_band :: Espa_band_meta_t where
  "class_band = (example_band ''fmask'' 1 (- 1))
     \<lparr>nclass := 2,
      class_values := [\<lparr>class_value = 0, description = ''clear''\<rparr>,
                       \<lparr>class_value = 255, description = ''fill''\<rparr>]\<rparr>"

definition long_band :: Espa_band_meta_t where
  "long_band = (example_band ''sr_cloud_qa'' 1 (- 1))
     \<lparr>nbits := 6, bitmap_description := replicate 6 (replicate 1000 (CHR ''x''))\<rparr>"

definition long_class_band :: Espa_band_meta_t where
  "long_class_band = (example_band ''fmask'' 1 (- 1))
     \<lparr>nclass := 6,
      class_values := replicate 6
        \<lparr>class_value = 1, description = replicate 1000 (CHR ''x'')\<rparr>\<rparr>"

text \<open>
  The error of the first band that is not written: the rows are taken in order, in
  a row the bands of its modern name in the order of the band list, and the first
  band whose writing stops on an error gives that error.  \<open>None\<close> when every band of
  the rows is written.
\<close>

definition first_write_error ::
  "espa_consts \<Rightarrow> Espa_band_meta_t list \<Rightarrow> (nat \<times> string \<times> string) list \<Rightarrow> error option" where
  "first_write_error c bands rows =
     (case find (\<lambda>x. list_ex (\<lambda>b. name b = fst (snd x) \<and>
                        snd (create_sds c (snd x) b) \<noteq> None) bands) rows of
        None \<Rightarrow> None
      | Some x \<Rightarrow>
          (case find (\<lambda>b. name b = fst (snd x) \<and> snd (create_sds c (snd x) b) \<noteq> None) bands of
             None \<Rightarrow> None
           | Some b \<Rightarrow> snd (create_sds c (snd x) b)))"

section \<open>GeoTIFF band file names (\<^verbatim>\<open>convert_espa_to_gtif\<close>)\<close>

text \<open>\<^verbatim>\<open>strchr (s, ch)\<close>: the position of the first occurrence of \<open>ch\<close>, if any.\<close>

fun strchr :: "string \<Rightarrow> char \<Rightarrow> nat option" where
  "strchr [] ch = None"
| "strchr (x # xs) ch = (if x = ch then Some 0 else map_option Suc (strchr xs ch))"

lemma strchr_Some:
  "strchr s ch = Some i \<Longrightarrow> i < length s \<and> s ! i = ch"
  by (induction s arbitrary: i) (auto split: if_splits)

lemma strchr_None: "strchr s ch = None \<longleftrightarrow> ch \<notin> set s"
  by (induction s) auto

lemma count_list_update:
  "i < length s \<Longrightarrow> s ! i = ch \<Longrightarrow> u \<noteq> ch \<Longrightarrow>
   count_list (s[i := u]) ch < count_list s ch"
proof (induction s arbitrary: i)
  case Nil
  then show ?case by simp
next
  case (Cons x xs)
  then show ?case by (cases i) auto
qed

text \<open>
  The loop \<^verbatim>\<open>while ((cptr = strchr (gtif_band, ' ')) != NULL) *cptr = '_';\<close>
  Each round overwrites the first blank; the number of blanks decreases.
\<close>

function replace_blanks :: "string \<Rightarrow> string" where
  "replace_blanks s =
     (case strchr s (CHR '' '') of
        None \<Rightarrow> s
      | Some cptr \<Rightarrow> replace_blanks (s[cptr := CHR ''_'']))"
  by pat_completeness auto
termination
proof (relation "measure (\<lambda>s. count_list s (CHR '' ''))")
  show "wf (measure (\<lambda>s. count_list s (CHR '' '')))" by simp
next
  fix s :: string and cptr :: nat
  assume "strchr s (CHR '' '') = Some cptr"
  then have "cptr < length s \<and> s ! cptr = CHR '' ''" by (rule strchr_Some)
  then have "count_list (s[cptr := CHR ''_'']) (CHR '' '') < count_list s (CHR '' '')"
    by (simp add: count_list_update)
  then show "(s[cptr := CHR ''_''], s) \<in> measure (\<lambda>s. count_list s (CHR '' ''))"
    by simp
qed

declare replace_blanks.simps [simp del]

text \<open>
  The name of the GeoTIFF file of one band: \<^verbatim>\<open>snprintf\<close> of \<^verbatim>\<open>"%s_%s.tif"\<close> into a
  buffer of \<^verbatim>\<open>STR_SIZE\<close> bytes (the count returned is the length of the whole text, and
  a count that does not fit is the error), then the blank loop.
\<close>

definition gtif_band_name :: "espa_consts \<Rightarrow> string \<Rightarrow> string \<Rightarrow> error + string" where
  "gtif_band_name c gtif_file band_name =
     (let gtif_band = gtif_file @ ''_'' @ band_name @ ''.tif'' in
      if length gtif_band \<ge> STR_SIZE c
      then Inl (Overflow ''Overflow of gtif_file string'')
      else Inr (replace_blanks gtif_band))"

definition blank_to_underscore :: "char \<Rightarrow> char" where
  "blank_to_underscore ch = (if ch = CHR '' '' then CHR ''_'' else ch)"

lemma strchr_first:
  "strchr s ch = Some i \<Longrightarrow> ch \<notin> set (take i s)"
proof (induction s arbitrary: i)
  case Nil
  then show ?case by simp
next
  case (Cons x xs)
  then show ?case by (cases i) (auto split: if_splits)
qed

lemma map_blank_update:
  assumes "i < length s" and "s ! i = CHR '' ''"
  shows "map blank_to_underscore (s[i := CHR ''_'']) = map blank_to_underscore s"
  using assms
  by (intro nth_equalityI) (auto simp: nth_list_update blank_to_underscore_def)

lemma map_blank_id:
  "CHR '' '' \<notin> set s \<Longrightarrow> map blank_to_underscore s = s"
  by (induction s) (auto simp: blank_to_underscore_def)

lemma replace_blanks_map: "replace_blanks s = map blank_to_underscore s"
proof (induction s rule: replace_blanks.induct)
  case (1 s)
  show ?case
  proof (cases "strchr s (CHR '' '')")
    case None
    then have "CHR '' '' \<notin> set s" by (simp add: strchr_None)
    then show ?thesis using None
      by (subst replace_blanks.simps) (simp add: map_blank_id)
  next
    case (Some cptr)
    then have "cptr < length s \<and> s ! cptr = CHR '' ''" by (rule strchr_Some)
    then have "map blank_to_underscore (s[cptr := CHR ''_'']) = map blank_to_underscore s"
      by (simp add: map_blank_update)
    with 1 Some show ?thesis
      by (subst replace_blanks.simps) simp
  qed
qed

lemma blank_to_underscore_idem:
  "blank_to_underscore (blank_to_underscore ch) = blank_to_underscore ch"
  by (simp add: blank_to_underscore_def)

text \<open>
  C5.  The derived GeoTIFF file name is the base name, an underscore, the band name and
  \<^verbatim>\<open>.tif\<close>, with every blank of the composed name replaced by an underscore (a name
  that does not fit the buffer is the overflow error instead); the result holds no
  blank, and the blank replacement applied to its own output changes nothing; base
  \<^verbatim>\<open>scene A\<close> and band \<^verbatim>\<open>band 1\<close> give \<^verbatim>\<open>scene_A_band_1.tif\<close> as soon as the buffer
  holds the 18 characters and the terminator.
\<close>

theorem gtif_band_name_blanks:
  "gtif_band_name c gtif_file band_name =
     (if length (gtif_file @ ''_'' @ band_name @ ''.tif'') < STR_SIZE c
      then Inr (map blank_to_underscore (gtif_file @ ''_'' @ band_name @ ''.tif''))
      else Inl (Overflow ''Overflow of gtif_file string''))
   \<and> CHR '' '' \<notin> set (replace_blanks s)
   \<and> replace_blanks (replace_blanks s) = replace_blanks s
   \<and> gtif_band_name (c\<lparr>STR_SIZE := 19\<rparr>) ''scene A'' ''band 1''
       = Inr ''scene_A_band_1.tif''"
proof -
  have name_eq: "gtif_band_name c gtif_file band_name =
     (if length (gtif_file @ ''_'' @ band_name @ ''.tif'') < STR_SIZE c
      then Inr (map blank_to_underscore (gtif_file @ ''_'' @ band_name @ ''.tif''))
      else Inl (Overflow ''Overflow of gtif_file string''))"
    by (simp add: gtif_band_name_def Let_def replace_blanks_map not_le)
  have no_blank: "CHR '' '' \<notin> set (replace_blanks s)"
    by (auto simp: replace_blanks_map blank_to_underscore_def)
  have idem: "replace_blanks (replace_blanks s) = replace_blanks s"
    by (simp add: replace_blanks_map blank_to_underscore_idem)
  have example: "gtif_band_name (c\<lparr>STR_SIZE := 19\<rparr>) ''scene A'' ''band 1''
       = Inr ''scene_A_band_1.tif''"
    by (simp add: gtif_band_name_def Let_def replace_blanks_map blank_to_underscore_def)
  from name_eq no_blank idem example show ?thesis by blast
qed

section \<open>Properties of scripts\<close>

lemma seq_calls [simp]: "seq (calls xs) q = (xs @ fst q, snd q)"
  by (simp add: seq_def calls_def)

lemma seq_fail [simp]: "seq (fail e) q = fail e"
  by (simp add: seq_def fail_def)

lemma fst_calls [simp]: "fst (calls xs) = xs"
  by (simp add: calls_def)

lemma snd_calls [simp]: "snd (calls xs) = None"
  by (simp add: calls_def)

lemma fst_fail [simp]: "fst (fail e) = []"
  by (simp add: fail_def)

lemma snd_fail [simp]: "snd (fail e) = Some e"
  by (simp add: fail_def)

lemma fst_seq: "fst (seq p q) = (if snd p = None then fst p @ fst q else fst p)"
  by (auto simp: seq_def split: option.splits)

lemma snd_seq: "snd (seq p q) = (if snd p = None then snd q else snd p)"
  by (auto simp: seq_def split: option.splits)

text \<open>
  Whatever the library does, the calls carried out are a beginning of the script, and
  \<^verbatim>\<open>SUCCESS\<close> is returned only when the script has no error of its own.
\<close>

lemma run_calls_prefix:
  "\<exists>ys. snd (run_calls lib d xs e) = d @ ys \<and> prefix ys xs"
proof (induction xs arbitrary: d)
  case Nil
  then show ?case by simp
next
  case (Cons x xs)
  show ?case
  proof (cases "result_ignored x \<or> lib d x")
    case True
    from Cons [of "d @ [x]"] obtain ys where
      "snd (run_calls lib (d @ [x]) xs e) = (d @ [x]) @ ys" and "prefix ys xs"
      by blast
    with True have "snd (run_calls lib d (x # xs) e) = d @ (x # ys) \<and> prefix (x # ys) (x # xs)"
      by simp
    then show ?thesis by blast
  next
    case False
    then show ?thesis by auto
  qed
qed

lemma run_prefix: "prefix (snd (run lib p)) (fst p)"
  using run_calls_prefix [of lib "[]" "fst p" "snd p"]
  by (auto simp: run_def)

lemma run_list_all:
  assumes "list_all P (fst p)"
  shows "list_all P (snd (run lib p))"
  using assms set_mono_prefix [OF run_prefix [of lib p]]
  by (auto simp: list_all_iff)

lemma run_calls_success:
  "fst (run_calls lib d xs e) = None \<Longrightarrow> e = None"
  by (induction xs arbitrary: d) (auto split: if_splits)

lemma run_success: "fst (run lib p) = None \<Longrightarrow> snd p = None"
  by (simp add: run_def run_calls_success)

lemma run_calls_all_succeed: "run_calls (\<lambda>d x. True) d0 xs e = (e, d0 @ xs)"
  by (induction xs arbitrary: d0) auto

lemma run_all_succeed: "run (\<lambda>d x. True) p = (snd p, fst p)"
  by (simp add: run_def run_calls_all_succeed)

section \<open>Calibration attributes\<close>

lemma tm_loop:
  assumes "7 \<le> length bands" and "gain_bias_exist c (bands ! 0)"
  shows "gains_and_biases c ''TM'' bands =
     Inr \<lparr>gain = map (\<lambda>i. toa_gain (bands ! i)) [0, 1, 2, 3, 4, 6],
          bias = map (\<lambda>i. toa_bias (bands ! i)) [0, 1, 2, 3, 4, 6],
          gain_thm = map (\<lambda>i. toa_gain (bands ! i)) [5],
          bias_thm = map (\<lambda>i. toa_bias (bands ! i)) [5]\<rparr>"
  using assms
  by (auto simp: gains_and_biases_def guarded_loop_def band_at_def tm_class_def
      no_calibration_def)

lemma etm_not_tm: "take 3 inst = ''ETM'' \<Longrightarrow> inst \<noteq> ''TM''"
  by auto

lemma etm_loop:
  assumes "take 3 inst = ''ETM''" and "8 \<le> length bands" and "gain_bias_exist c (bands ! 0)"
  shows "gains_and_biases c inst bands =
     Inr \<lparr>gain = map (\<lambda>i. toa_gain (bands ! i)) [0, 1, 2, 3, 4, 7],
          bias = map (\<lambda>i. toa_bias (bands ! i)) [0, 1, 2, 3, 4, 7],
          gain_thm = map (\<lambda>i. toa_gain (bands ! i)) [5, 6],
          bias_thm = map (\<lambda>i. toa_bias (bands ! i)) [5, 6]\<rparr>"
  using assms etm_not_tm [OF assms(1)]
  by (auto simp: gains_and_biases_def guarded_loop_def band_at_def etm_class_def
      no_calibration_def)

lemma oli_loop:
  assumes "11 \<le> length bands" and "gain_bias_exist c (bands ! 0)"
  shows "gains_and_biases c ''OLI_TIRS'' bands =
     Inr \<lparr>gain = map (\<lambda>i. toa_gain (bands ! i)) [0, 1, 2, 3, 4, 5, 6, 8],
          bias = map (\<lambda>i. toa_bias (bands ! i)) [0, 1, 2, 3, 4, 5, 6, 8],
          gain_thm = map (\<lambda>i. toa_gain (bands ! i)) [9, 10],
          bias_thm = map (\<lambda>i. toa_bias (bands ! i)) [9, 10]\<rparr>"
  using assms
  by (auto simp: gains_and_biases_def guarded_loop_def band_at_def oli_class_def
      no_calibration_def)

lemma tm_write:
  assumes "7 \<le> length bands" and "gain_bias_exist c (bands ! 0)"
  shows "write_calibration c hdf ''TM'' bands = calls
     [Put_attr_double hdf ''ReflGains'' DFNT_FLOAT64
        (map (\<lambda>i. toa_gain (bands ! i)) [0, 1, 2, 3, 4, 6]),
      Put_attr_double hdf ''ReflBias'' DFNT_FLOAT64
        (map (\<lambda>i. toa_bias (bands ! i)) [0, 1, 2, 3, 4, 6]),
      Put_attr_double hdf ''ThermalGains'' DFNT_FLOAT64
        (map (\<lambda>i. toa_gain (bands ! i)) [5]),
      Put_attr_double hdf ''ThermalBias'' DFNT_FLOAT64
        (map (\<lambda>i. toa_bias (bands ! i)) [5])]"
  by (simp add: write_calibration_def tm_loop [OF assms] put_refl_thm_def put_pan_def
      calls_def seq_def)

lemma etm_write:
  assumes "take 3 inst = ''ETM''" and "9 \<le> length bands" and "gain_bias_exist c (bands ! 0)"
  shows "write_calibration c hdf inst bands = calls
     [Put_attr_double hdf ''ReflGains'' DFNT_FLOAT64
        (map (\<lambda>i. toa_gain (bands ! i)) [0, 1, 2, 3, 4, 7]),
      Put_attr_double hdf ''ReflBias'' DFNT_FLOAT64
        (map (\<lambda>i. toa_bias (bands ! i)) [0, 1, 2, 3, 4, 7]),
      Put_attr_double hdf ''ThermalGains'' DFNT_FLOAT64
        (map (\<lambda>i. toa_gain (bands ! i)) [5, 6]),
      Put_attr_double hdf ''ThermalBias'' DFNT_FLOAT64
        (map (\<lambda>i. toa_bias (bands ! i)) [5, 6]),
      Put_attr_double hdf ''PanGain'' DFNT_FLOAT64 (map (\<lambda>i. toa_gain (bands ! i)) [8]),
      Put_attr_double hdf ''PanBias'' DFNT_FLOAT64 (map (\<lambda>i. toa_bias (bands ! i)) [8])]"
proof -
  from assms(2) have "8 \<le> length bands" by simp
  from etm_loop [OF assms(1) this assms(3)] assms(1,2) show ?thesis
    by (simp add: write_calibration_def put_refl_thm_def put_pan_def calls_def seq_def
        band_at_def)
qed

lemma oli_write:
  assumes "11 \<le> length bands" and "gain_bias_exist c (bands ! 0)"
  shows "write_calibration c hdf ''OLI_TIRS'' bands = calls
     [Put_attr_double hdf ''ReflGains'' DFNT_FLOAT64
        (map (\<lambda>i. toa_gain (bands ! i)) [0, 1, 2, 3, 4, 5, 6, 8]),
      Put_attr_double hdf ''ReflBias'' DFNT_FLOAT64
        (map (\<lambda>i. toa_bias (bands ! i)) [0, 1, 2, 3, 4, 5, 6, 8]),
      Put_attr_double hdf ''ThermalGains'' DFNT_FLOAT64
        (map (\<lambda>i. toa_gain (bands ! i)) [9, 10]),
      Put_attr_double hdf ''ThermalBias'' DFNT_FLOAT64
        (map (\<lambda>i. toa_bias (bands ! i)) [9, 10]),
      Put_attr_double hdf ''PanGain'' DFNT_FLOAT64 (map (\<lambda>i. toa_gain (bands ! i)) [7]),
      Put_attr_double hdf ''PanBias'' DFNT_FLOAT64 (map (\<lambda>i. toa_bias (bands ! i)) [7])]"
  using oli_loop [OF assms] assms(1)
  by (simp add: write_calibration_def put_refl_thm_def put_pan_def calls_def seq_def
      band_at_def)

lemma no_calibration_sentinel:
  assumes "bands \<noteq> []" and "\<not> gain_bias_exist c (bands ! 0)"
  shows "gains_and_biases c inst bands = Inr no_calibration"
  using assms
  by (simp add: gains_and_biases_def guarded_loop_def band_at_def)

lemma no_calibration_other:
  assumes "inst \<noteq> ''TM''" and "take 3 inst \<noteq> ''ETM''" and "inst \<noteq> ''OLI_TIRS''"
  shows "gains_and_biases c inst bands = Inr no_calibration"
  using assms
  by (simp add: gains_and_biases_def)

lemma write_no_calibration:
  assumes "gains_and_biases c inst bands = Inr no_calibration"
  shows "write_calibration c hdf inst bands = calls []"
  using assms
  by (simp add: write_calibration_def put_refl_thm_def put_pan_def no_calibration_def
      calls_def seq_def)

text \<open>
  When the calibration part writes nothing, the global attributes are the eleven
  scene attributes, the eight corner, bounding and version attributes and the
  production date of band 0: none has a calibration name, and the function does not
  stop as long as there is a band 0.
\<close>

lemma global_without_calibration:
  assumes "write_calibration c hdf (instrument (global_meta xml)) (band xml) = calls []"
  shows "list_all (\<lambda>x. attr_name x \<notin> set calibration_attr_names)
           (fst (write_global_attributes c hdf xml))"
    and "band xml \<noteq> [] \<Longrightarrow> snd (write_global_attributes c hdf xml) = None"
  using assms
  by (simp_all add: write_global_attributes_def Let_def calibration_attr_names_def
      band_at_def split: sum.split)

lemma example_bands_length: "length example_bands = 17"
  by (simp add: example_bands_def hdfname_mapping_def)

lemma example_bands_gain:
  "map toa_gain example_bands = [1, 2, 3, 4, 5, 6, 7, 8, 9, 10, 11, 12, 13, 14, 15, 16, 17]"
  by (simp add: example_bands_def hdfname_mapping_def example_band_def)

lemma example_bands_bias:
  "map toa_bias example_bands =
     [- 1, - 2, - 3, - 4, - 5, - 6, - 7, - 8, - 9, - 10, - 11, - 12, - 13, - 14, - 15, - 16, - 17]"
  by (simp add: example_bands_def hdfname_mapping_def example_band_def)

lemma example_gain_at:
  "i < 17 \<Longrightarrow> toa_gain (example_bands ! i) = map toa_gain example_bands ! i"
  by (simp add: example_bands_length)

lemma example_bias_at:
  "i < 17 \<Longrightarrow> toa_bias (example_bands ! i) = map toa_bias example_bands ! i"
  by (simp add: example_bands_length)

lemma example_gain_bias_exist: "gain_bias_exist example_consts (example_bands ! 0)"
  by (simp add: gain_bias_exist_def example_consts_def example_gain_at example_bias_at
      example_bands_gain example_bands_bias)

text \<open>
  C1.  With gain and bias of band 0 present and the bands of the instrument there
  (7 for TM, 9 for the ETM family, 11 for OLI_TIRS), the calibration attributes are
  exactly: for TM six reflective pairs from indices 0, 1, 2, 3, 4, 6, one thermal pair
  from index 5, and no panchromatic pair; for ETM six reflective pairs from indices 0
  to 4 and 7, two thermal pairs from 5 and 6, the panchromatic pair from 8; for
  OLI_TIRS eight reflective pairs from indices 0 to 6 and 8, two thermal pairs from 9
  and 10, the panchromatic pair from 7.
\<close>

theorem calibration_vectors:
  assumes "gain_bias_exist c (bands ! 0)"
  shows
    "(7 \<le> length bands \<longrightarrow>
        write_calibration c hdf ''TM'' bands = calls
          [Put_attr_double hdf ''ReflGains'' DFNT_FLOAT64
             (map (\<lambda>i. toa_gain (bands ! i)) [0, 1, 2, 3, 4, 6]),
           Put_attr_double hdf ''ReflBias'' DFNT_FLOAT64
             (map (\<lambda>i. toa_bias (bands ! i)) [0, 1, 2, 3, 4, 6]),
           Put_attr_double hdf ''ThermalGains'' DFNT_FLOAT64
             (map (\<lambda>i. toa_gain (bands ! i)) [5]),
           Put_attr_double hdf ''ThermalBias'' DFNT_FLOAT64
             (map (\<lambda>i. toa_bias (bands ! i)) [5])]) \<and>
     (take 3 inst = ''ETM'' \<and> 9 \<le> length bands \<longrightarrow>
        write_calibration c hdf inst bands = calls
          [Put_attr_double hdf ''ReflGains'' DFNT_FLOAT64
             (map (\<lambda>i. toa_gain (bands ! i)) [0, 1, 2, 3, 4, 7]),
           Put_attr_double hdf ''ReflBias'' DFNT_FLOAT64
             (map (\<lambda>i. toa_bias (bands ! i)) [0, 1, 2, 3, 4, 7]),
           Put_attr_double hdf ''ThermalGains'' DFNT_FLOAT64
             (map (\<lambda>i. toa_gain (bands ! i)) [5, 6]),
           Put_attr_double hdf ''ThermalBias'' DFNT_FLOAT64
             (map (\<lambda>i. toa_bias (bands ! i)) [5, 6]),
           Put_attr_double hdf ''PanGain'' DFNT_FLOAT64
             (map (\<lambda>i. toa_gain (bands ! i)) [8]),
           Put_attr_double hdf ''PanBias'' DFNT_FLOAT64
             (map (\<lambda>i. toa_bias (bands ! i)) [8])]) \<and>
     (11 \<le> length bands \<longrightarrow>
        write_calibration c hdf ''OLI_TIRS'' bands = calls
          [Put_attr_double hdf ''ReflGains'' DFNT_FLOAT64
             (map (\<lambda>i. toa_gain (bands ! i)) [0, 1, 2, 3, 4, 5, 6, 8]),
           Put_attr_double hdf ''ReflBias'' DFNT_FLOAT64
             (map (\<lambda>i. toa_bias (bands ! i)) [0, 1, 2, 3, 4, 5, 6, 8]),
           Put_attr_double hdf ''ThermalGains'' DFNT_FLOAT64
             (map (\<lambda>i. toa_gain (bands ! i)) [9, 10]),
           Put_attr_double hdf ''ThermalBias'' DFNT_FLOAT64
             (map (\<lambda>i. toa_bias (bands ! i)) [9, 10]),
           Put_attr_double hdf ''PanGain'' DFNT_FLOAT64
             (map (\<lambda>i. toa_gain (bands ! i)) [7]),
           Put_attr_double hdf ''PanBias'' DFNT_FLOAT64
             (map (\<lambda>i. toa_bias (bands ! i)) [7])])"
  using tm_write [OF _ assms] etm_write [OF _ _ assms] oli_write [OF _ assms]
  by blast

theorem calibration_vectors_witness:
  "gain_bias_exist example_consts (example_bands ! 0) \<and>
   write_calibration example_consts File_id ''TM'' example_bands = calls
     [Put_attr_double File_id ''ReflGains'' DFNT_FLOAT64 [1, 2, 3, 4, 5, 7],
      Put_attr_double File_id ''ReflBias'' DFNT_FLOAT64 [- 1, - 2, - 3, - 4, - 5, - 7],
      Put_attr_double File_id ''ThermalGains'' DFNT_FLOAT64 [6],
      Put_attr_double File_id ''ThermalBias'' DFNT_FLOAT64 [- 6]] \<and>
   write_calibration example_consts File_id ''ETM+'' example_bands = calls
     [Put_attr_double File_id ''ReflGains'' DFNT_FLOAT64 [1, 2, 3, 4, 5, 8],
      Put_attr_double File_id ''ReflBias'' DFNT_FLOAT64 [- 1, - 2, - 3, - 4, - 5, - 8],
      Put_attr_double File_id ''ThermalGains'' DFNT_FLOAT64 [6, 7],
      Put_attr_double File_id ''ThermalBias'' DFNT_FLOAT64 [- 6, - 7],
      Put_attr_double File_id ''PanGain'' DFNT_FLOAT64 [9],
      Put_attr_double File_id ''PanBias'' DFNT_FLOAT64 [- 9]] \<and>
   write_calibration example_consts File_id ''OLI_TIRS'' example_bands = calls
     [Put_attr_double File_id ''ReflGains'' DFNT_FLOAT64 [1, 2, 3, 4, 5, 6, 7, 9],
      Put_attr_double File_id ''ReflBias'' DFNT_FLOAT64
        [- 1, - 2, - 3, - 4, - 5, - 6, - 7, - 9],
      Put_attr_double File_id ''ThermalGains'' DFNT_FLOAT64 [10, 11],
      Put_attr_double File_id ''ThermalBias'' DFNT_FLOAT64 [- 10, - 11],
      Put_attr_double File_id ''PanGain'' DFNT_FLOAT64 [8],
      Put_attr_double File_id ''PanBias'' DFNT_FLOAT64 [- 8]]"
  using calibration_vectors [OF example_gain_bias_exist, of File_id "''ETM+''"]
    example_gain_bias_exist
  by (simp add: example_bands_length example_gain_at example_bias_at
      example_bands_gain example_bands_bias)

text \<open>
  C2.  When gain or bias of band 0 is the fill value (within the tolerance), no
  calibration is found, whatever the instrument and whatever the other bands hold:
  the calibration part makes no call and does not fail, and no attribute of the file
  is a reflective, thermal or panchromatic gain or bias, in the script and in what is
  carried out of it under any behaviour of the library.
\<close>

theorem sentinel_band0_no_calibration:
  assumes "band xml \<noteq> []" and "\<not> gain_bias_exist c (band xml ! 0)"
  shows "gains_and_biases c (instrument (global_meta xml)) (band xml) = Inr no_calibration \<and>
         write_calibration c hdf (instrument (global_meta xml)) (band xml) = calls [] \<and>
         list_all (\<lambda>x. attr_name x \<notin> set calibration_attr_names)
           (fst (write_global_attributes c hdf xml)) \<and>
         list_all (\<lambda>x. attr_name x \<notin> set calibration_attr_names)
           (snd (run lib (write_global_attributes c hdf xml)))"
proof -
  note none = no_calibration_sentinel [OF assms]
  note script = global_without_calibration(1) [OF write_no_calibration [OF none]]
  from none write_no_calibration [OF none] script run_list_all [OF script]
  show ?thesis by blast
qed

theorem sentinel_band0_no_calibration_witness:
  "band (sentinel_scene ''OLI_TIRS'') \<noteq> [] \<and>
   \<not> gain_bias_exist example_consts (band (sentinel_scene ''OLI_TIRS'') ! 0) \<and>
   toa_gain (band (sentinel_scene ''OLI_TIRS'') ! 9) = 10 \<and>
   write_calibration example_consts File_id ''OLI_TIRS'' (band (sentinel_scene ''OLI_TIRS''))
     = calls [] \<and>
   list_all (\<lambda>x. attr_name x \<notin> set calibration_attr_names)
     (fst (write_global_attributes example_consts File_id (sentinel_scene ''OLI_TIRS''))) \<and>
   list_all (\<lambda>x. attr_name x \<notin> set calibration_attr_names)
     (snd (run (\<lambda>d x. True)
        (write_global_attributes example_consts File_id (sentinel_scene ''OLI_TIRS''))))"
proof -
  have len: "length example_bands = 17" by (rule example_bands_length)
  have ne: "band (sentinel_scene ''OLI_TIRS'') \<noteq> []"
    using len by (auto simp: sentinel_scene_def)
  have fill: "\<not> gain_bias_exist example_consts (band (sentinel_scene ''OLI_TIRS'') ! 0)"
    using len
    by (simp add: sentinel_scene_def gain_bias_exist_def example_consts_def example_band_def)
  have other: "toa_gain (band (sentinel_scene ''OLI_TIRS'') ! 9) = 10"
    using len by (simp add: sentinel_scene_def example_gain_at example_bands_gain)
  have inst: "instrument (global_meta (sentinel_scene ''OLI_TIRS'')) = ''OLI_TIRS''"
    by (simp add: sentinel_scene_def example_global_def)
  from sentinel_band0_no_calibration [OF ne fill, of File_id "\<lambda>d x. True"]
    ne fill other inst
  show ?thesis by simp
qed

text \<open>
  C8.  An instrument that is not TM, does not start with ETM and is not OLI_TIRS has
  no calibration: the calibration part makes no call and returns no error, whatever
  the bands are; the file gets no reflective, thermal or panchromatic attribute,
  whatever the library does, and the function itself does not fail (band 0, whose
  production date it writes last, being there).
\<close>

theorem unknown_instrument_no_calibration:
  assumes "instrument (global_meta xml) \<noteq> ''TM''"
    and "take 3 (instrument (global_meta xml)) \<noteq> ''ETM''"
    and "instrument (global_meta xml) \<noteq> ''OLI_TIRS''"
  shows "gains_and_biases c (instrument (global_meta xml)) (band xml) = Inr no_calibration \<and>
         write_calibration c hdf (instrument (global_meta xml)) (band xml) = calls [] \<and>
         list_all (\<lambda>x. attr_name x \<notin> set calibration_attr_names)
           (fst (write_global_attributes c hdf xml)) \<and>
         list_all (\<lambda>x. attr_name x \<notin> set calibration_attr_names)
           (snd (run lib (write_global_attributes c hdf xml))) \<and>
         (band xml \<noteq> [] \<longrightarrow> snd (write_global_attributes c hdf xml) = None)"
proof -
  note none = no_calibration_other [OF assms]
  note script = global_without_calibration [OF write_no_calibration [OF none]]
  from none write_no_calibration [OF none] script run_list_all [OF script(1)]
  show ?thesis by blast
qed

theorem unknown_instrument_no_calibration_witness:
  "instrument (global_meta (example_scene ''MSS'')) \<noteq> ''TM'' \<and>
   take 3 (instrument (global_meta (example_scene ''MSS''))) \<noteq> ''ETM'' \<and>
   instrument (global_meta (example_scene ''MSS'')) \<noteq> ''OLI_TIRS'' \<and>
   band (example_scene ''MSS'') \<noteq> [] \<and>
   gain_bias_exist example_consts (band (example_scene ''MSS'') ! 0) \<and>
   write_calibration example_consts File_id ''MSS'' (band (example_scene ''MSS'')) = calls [] \<and>
   list_all (\<lambda>x. attr_name x \<notin> set calibration_attr_names)
     (fst (write_global_attributes example_consts File_id (example_scene ''MSS''))) \<and>
   list_all (\<lambda>x. attr_name x \<notin> set calibration_attr_names)
     (snd (run (\<lambda>d x. True)
        (write_global_attributes example_consts File_id (example_scene ''MSS'')))) \<and>
   snd (write_global_attributes example_consts File_id (example_scene ''MSS'')) = None"
proof -
  have inst: "instrument (global_meta (example_scene ''MSS'')) = ''MSS''"
    by (simp add: example_scene_def example_global_def)
  have bands: "band (example_scene ''MSS'') = example_bands"
    by (simp add: example_scene_def)
  have ne: "example_bands \<noteq> []"
    using example_bands_length by auto
  have a: "instrument (global_meta (example_scene ''MSS'')) \<noteq> ''TM''"
    and b: "take 3 (instrument (global_meta (example_scene ''MSS''))) \<noteq> ''ETM''"
    and d: "instrument (global_meta (example_scene ''MSS'')) \<noteq> ''OLI_TIRS''"
    by (simp_all add: inst)
  from unknown_instrument_no_calibration [OF a b d, of example_consts File_id "\<lambda>d x. True"]
    a b d ne example_gain_bias_exist
  show ?thesis by (simp add: inst bands)
qed

section \<open>Description attributes\<close>

lemma message_loop_Inr:
  "message_loop c line idx m = Inr r \<Longrightarrow>
   (\<exists>ls. map line idx = map Inr ls \<and> r = m @ concat ls) \<and>
   (length m < message_size \<longrightarrow> length r < message_size)"
proof (induction idx arbitrary: m)
  case Nil
  then show ?case by simp
next
  case (Cons i rest)
  from Cons.prems obtain t where t: "line i = Inr t"
    by (cases "line i") auto
  from Cons.prems t have small: "\<not> length t \<ge> STR_SIZE c"
    and fits: "\<not> length m + length t \<ge> message_size"
    and rec: "message_loop c line rest (m @ t) = Inr r"
    by (auto split: if_splits)
  from Cons.IH [OF rec] obtain ls where
    ls: "map line rest = map Inr ls" "r = (m @ t) @ concat ls"
    and len: "length (m @ t) < message_size \<longrightarrow> length r < message_size"
    by blast
  from ls t have "map line (i # rest) = map Inr (t # ls) \<and> r = m @ concat (t # ls)"
    by simp
  moreover from len fits have "length r < message_size" by simp
  ultimately show ?case by blast
qed

lemma message_loop_Inl:
  "message_loop c line idx m = Inl e \<Longrightarrow>
   (\<exists>s. e = Overflow s) \<or> (\<exists>i \<in> set idx. line i = Inl e)"
proof (induction idx arbitrary: m)
  case Nil
  then show ?case by simp
next
  case (Cons i rest)
  show ?case
  proof (cases "line i")
    case (Inl a)
    with Cons.prems show ?thesis by auto
  next
    case (Inr t)
    with Cons.prems Cons.IH [of "m @ t"] show ?thesis
      by (auto split: if_splits)
  qed
qed

lemma map_Inr_eq:
  assumes "map line idx = map Inr ls" and "\<forall>i \<in> set idx. line i = Inr (f i)"
  shows "ls = map f idx"
  using assms
proof (induction idx arbitrary: ls)
  case Nil
  then show ?case by simp
next
  case (Cons i rest)
  then show ?case by (cases ls) auto
qed

lemma bit_lines_in_bounds:
  assumes "map (bit_line bmeta) [0..<n] = map Inr ls"
  shows "n \<le> length (bitmap_description bmeta)"
proof (rule ccontr)
  assume "\<not> n \<le> length (bitmap_description bmeta)"
  then have i: "length (bitmap_description bmeta) < n" by simp
  then have "map (bit_line bmeta) [0..<n] ! length (bitmap_description bmeta)
        = Inl Out_of_bounds"
    by (simp add: bit_line_def)
  with assms i show False
    by (metis Inl_Inr_False length_map length_upt minus_nat.diff_0 nth_map)
qed

lemma bitmap_message_Inr:
  assumes "bitmap_message c bmeta = Inr m"
  shows "nat (nbits bmeta) \<le> length (bitmap_description bmeta) \<and>
         m = bitmap_block bmeta \<and> length m < message_size"
proof -
  from assms have hdr: "length bitmap_header < message_size"
    and loop: "message_loop c (bit_line bmeta) [0..<nat (nbits bmeta)] bitmap_header = Inr m"
    by (auto simp: bitmap_message_def build_message_def split: if_splits)
  from message_loop_Inr [OF loop] hdr obtain ls where
    ls: "map (bit_line bmeta) [0..<nat (nbits bmeta)] = map Inr ls"
    and m: "m = bitmap_header @ concat ls" and len: "length m < message_size"
    by blast
  from bit_lines_in_bounds [OF ls] have n: "nat (nbits bmeta) \<le> length (bitmap_description bmeta)" .
  then have "\<forall>i \<in> set [0..<nat (nbits bmeta)].
      bit_line bmeta i = Inr (description_line (int i) (bitmap_description bmeta ! i))"
    by (simp add: bit_line_def)
  from map_Inr_eq [OF ls this] m have "m = bitmap_block bmeta"
    by (simp add: bitmap_block_def)
  with n len show ?thesis by blast
qed

lemma class_lines_in_bounds:
  assumes "map (class_line bmeta) [0..<n] = map Inr ls"
  shows "n \<le> length (class_values bmeta)"
proof (rule ccontr)
  assume "\<not> n \<le> length (class_values bmeta)"
  then have i: "length (class_values bmeta) < n" by simp
  then have "map (class_line bmeta) [0..<n] ! length (class_values bmeta)
        = Inl Out_of_bounds"
    by (simp add: class_line_def)
  with assms i show False
    by (metis Inl_Inr_False length_map length_upt minus_nat.diff_0 nth_map)
qed

lemma class_message_Inr:
  assumes "class_message c bmeta = Inr m"
  shows "nat (nclass bmeta) \<le> length (class_values bmeta) \<and>
         m = class_block bmeta \<and> length m < message_size"
proof -
  from assms have hdr: "length class_header < message_size"
    and loop: "message_loop c (class_line bmeta) [0..<nat (nclass bmeta)] class_header = Inr m"
    by (auto simp: class_message_def build_message_def split: if_splits)
  from message_loop_Inr [OF loop] hdr obtain ls where
    ls: "map (class_line bmeta) [0..<nat (nclass bmeta)] = map Inr ls"
    and m: "m = class_header @ concat ls" and len: "length m < message_size"
    by blast
  from class_lines_in_bounds [OF ls] have n: "nat (nclass bmeta) \<le> length (class_values bmeta)" .
  then have "\<forall>i \<in> set [0..<nat (nclass bmeta)].
      class_line bmeta i = Inr (description_line (class_value (class_values bmeta ! i))
                         (description (class_values bmeta ! i)))"
    by (simp add: class_line_def)
  from map_Inr_eq [OF ls this] m have "m = class_block bmeta"
    by (simp add: class_block_def)
  with n len show ?thesis by blast
qed

lemma build_message_Inl:
  assumes "build_message c header line n = Inl e"
    and "\<forall>i \<in> set [0..<nat n]. \<exists>t. line i = Inr t"
  shows "\<exists>s. e = Overflow s"
proof (cases "length header \<ge> message_size")
  case True
  with assms(1) show ?thesis by (auto simp: build_message_def)
next
  case False
  with assms(1) have "message_loop c line [0..<nat n] header = Inl e"
    by (simp add: build_message_def)
  from message_loop_Inl [OF this] assms(2) show ?thesis by fastforce
qed

lemma bitmap_message_overflow:
  assumes "nat (nbits bmeta) \<le> length (bitmap_description bmeta)"
    and "message_size \<le> length (bitmap_block bmeta)"
  shows "\<exists>s. bitmap_message c bmeta = Inl (Overflow s)"
proof (cases "bitmap_message c bmeta")
  case (Inr m)
  from bitmap_message_Inr [OF this] assms(2) show ?thesis by auto
next
  case (Inl e)
  from assms(1) have "\<forall>i \<in> set [0..<nat (nbits bmeta)]. \<exists>t. bit_line bmeta i = Inr t"
    by (simp add: bit_line_def)
  with Inl build_message_Inl [of c bitmap_header "bit_line bmeta" "nbits bmeta" e]
  show ?thesis by (simp add: bitmap_message_def)
qed

lemma class_message_overflow:
  assumes "nat (nclass bmeta) \<le> length (class_values bmeta)"
    and "message_size \<le> length (class_block bmeta)"
  shows "\<exists>s. class_message c bmeta = Inl (Overflow s)"
proof (cases "class_message c bmeta")
  case (Inr m)
  from class_message_Inr [OF this] assms(2) show ?thesis by auto
next
  case (Inl e)
  from assms(1) have "\<forall>i \<in> set [0..<nat (nclass bmeta)]. \<exists>t. class_line bmeta i = Inr t"
    by (simp add: class_line_def)
  with Inl build_message_Inl [of c class_header "class_line bmeta" "nclass bmeta" e]
  show ?thesis by (simp add: class_message_def)
qed

lemma message_loop_fits:
  assumes "\<forall>i \<in> set idx. line i = Inr (f i) \<and> length (f i) < STR_SIZE c"
    and "length (m @ concat (map f idx)) < message_size"
  shows "message_loop c line idx m = Inr (m @ concat (map f idx))"
  using assms
  by (induction idx arbitrary: m) auto

lemma bitmap_message_fits:
  assumes "nat (nbits bmeta) \<le> length (bitmap_description bmeta)"
    and "\<forall>i < nat (nbits bmeta).
           length (description_line (int i) (bitmap_description bmeta ! i)) < STR_SIZE c"
    and "length (bitmap_block bmeta) < message_size"
  shows "bitmap_message c bmeta = Inr (bitmap_block bmeta)"
proof -
  from assms(3) have hdr: "length bitmap_header < message_size"
    by (simp add: bitmap_block_def)
  have "message_loop c (bit_line bmeta) [0..<nat (nbits bmeta)] bitmap_header =
        Inr (bitmap_header @ concat (map (\<lambda>i. description_line (int i)
               (bitmap_description bmeta ! i)) [0..<nat (nbits bmeta)]))"
    using assms by (intro message_loop_fits) (auto simp: bit_line_def bitmap_block_def)
  with hdr show ?thesis
    by (simp add: bitmap_message_def build_message_def bitmap_block_def)
qed

lemma class_message_fits:
  assumes "nat (nclass bmeta) \<le> length (class_values bmeta)"
    and "\<forall>i < nat (nclass bmeta).
           length (description_line (class_value (class_values bmeta ! i))
                         (description (class_values bmeta ! i))) < STR_SIZE c"
    and "length (class_block bmeta) < message_size"
  shows "class_message c bmeta = Inr (class_block bmeta)"
proof -
  from assms(3) have hdr: "length class_header < message_size"
    by (simp add: class_block_def)
  have "message_loop c (class_line bmeta) [0..<nat (nclass bmeta)] class_header =
        Inr (class_header @ concat (map (\<lambda>i. description_line (class_value (class_values bmeta ! i))
                         (description (class_values bmeta ! i))) [0..<nat (nclass bmeta)]))"
    using assms by (intro message_loop_fits) (auto simp: class_line_def class_block_def)
  with hdr show ?thesis
    by (simp add: class_message_def build_message_def class_block_def)
qed

lemma numeric_attributes_names:
  "x \<in> set (numeric_attributes c sds bmeta) \<Longrightarrow>
   attr_name x \<in> {''valid_range'', ''_FillValue'', ''_SaturateValue'', ''scale_factor'',
                   ''add_offset'', ''calibrated_nt''}"
  by (auto simp: numeric_attributes_def split: if_splits)

lemma put_description_calls:
  "x \<in> set (fst (put_description c sds n an msg)) \<Longrightarrow>
   n \<noteq> ESPA_INT_META_FILL c \<and> n > 0 \<and> (\<exists>m. msg = Inr m \<and> x = Put_attr_string sds an m)"
  by (auto simp: put_description_def split: if_splits sum.splits)


lemma write_sds_bitmap:
  assumes "x \<in> set (fst (write_sds_attributes c sds bmeta))"
    and "attr_name x = ''Bitmap description''"
  shows "nbits bmeta \<noteq> ESPA_INT_META_FILL c \<and> nbits bmeta > 0 \<and>
         (\<exists>m. bitmap_message c bmeta = Inr m \<and>
               x = Put_attr_string sds ''Bitmap description'' m)"
  using assms numeric_attributes_names [of x c sds bmeta]
    put_description_calls [of x c sds "nbits bmeta" "''Bitmap description''"
      "bitmap_message c bmeta"]
    put_description_calls [of x c sds "nclass bmeta" "''Class description''"
      "class_message c bmeta"]
  by (auto simp: write_sds_attributes_def fst_seq split: if_splits)

lemma write_sds_class:
  assumes "x \<in> set (fst (write_sds_attributes c sds bmeta))"
    and "attr_name x = ''Class description''"
  shows "nclass bmeta \<noteq> ESPA_INT_META_FILL c \<and> nclass bmeta > 0 \<and>
         (\<exists>m. class_message c bmeta = Inr m \<and>
               x = Put_attr_string sds ''Class description'' m)"
  using assms numeric_attributes_names [of x c sds bmeta]
    put_description_calls [of x c sds "nbits bmeta" "''Bitmap description''"
      "bitmap_message c bmeta"]
    put_description_calls [of x c sds "nclass bmeta" "''Class description''"
      "class_message c bmeta"]
  by (auto simp: write_sds_attributes_def fst_seq split: if_splits)

lemma write_sds_bitmap_fails:
  assumes "nbits bmeta \<noteq> ESPA_INT_META_FILL c" and "nbits bmeta > 0"
    and "bitmap_message c bmeta = Inl e"
  shows "snd (write_sds_attributes c sds bmeta) = Some e"
    and "\<not> list_ex (\<lambda>x. attr_name x = ''Bitmap description'')
             (fst (write_sds_attributes c sds bmeta))"
proof -
  from assms show "snd (write_sds_attributes c sds bmeta) = Some e"
    by (simp add: write_sds_attributes_def put_description_def)
  from assms(3) write_sds_bitmap [of _ c sds bmeta]
  show "\<not> list_ex (\<lambda>x. attr_name x = ''Bitmap description'')
             (fst (write_sds_attributes c sds bmeta))"
    by (auto simp: list_ex_iff)
qed

lemma write_sds_class_fails:
  assumes "nclass bmeta \<noteq> ESPA_INT_META_FILL c" and "nclass bmeta > 0"
    and "class_message c bmeta = Inl e"
  shows "snd (write_sds_attributes c sds bmeta) \<noteq> None"
    and "\<not> list_ex (\<lambda>x. attr_name x = ''Class description'')
             (fst (write_sds_attributes c sds bmeta))"
proof -
  from assms show "snd (write_sds_attributes c sds bmeta) \<noteq> None"
    by (simp add: write_sds_attributes_def put_description_def snd_seq)
  from assms(3) write_sds_class [of _ c sds bmeta]
  show "\<not> list_ex (\<lambda>x. attr_name x = ''Class description'')
             (fst (write_sds_attributes c sds bmeta))"
    by (auto simp: list_ex_iff)
qed

lemma write_sds_bitmap_emitted:
  assumes "nbits bmeta \<noteq> ESPA_INT_META_FILL c" and "nbits bmeta > 0"
    and "bitmap_message c bmeta = Inr m"
  shows "Put_attr_string sds ''Bitmap description'' m
           \<in> set (fst (write_sds_attributes c sds bmeta))"
  using assms
  by (simp add: write_sds_attributes_def put_description_def fst_seq)

lemma qa_band_block:
  "bitmap_block qa_band =
     [CHR 0x0A, CHR 0x09] @
     ''Bits are numbered from right to left (bit 0 = LSB, bit N = MSB):'' @
     [CHR 0x0A, CHR 0x09] @ ''Bit    Description'' @ [CHR 0x0A] @
     [CHR 0x09] @ ''0      fill'' @ [CHR 0x0A] @
     [CHR 0x09] @ ''1      cloud'' @ [CHR 0x0A]"
  by (simp add: bitmap_block_def qa_band_def example_band_def bitmap_header_def
      description_line_def format_d_def dec_digits.simps upt_rec)

lemma message_loop_overflow_message:
  assumes "\<forall>i \<in> set idx. line i = Inr (f i) \<and> length (f i) < STR_SIZE c"
    and "message_loop c line idx m = Inl e"
  shows "e = Overflow ''Overflow of message string''"
  using assms
proof (induction idx arbitrary: m)
  case Nil
  then show ?case by simp
next
  case (Cons i rest)
  then show ?case by (auto split: if_splits)
qed

lemma bitmap_message_overflow_message:
  assumes "bit_lines_fit c bmeta" and "message_size \<le> length (bitmap_block bmeta)"
  shows "bitmap_message c bmeta = Inl (Overflow ''Overflow of message string'')"
proof -
  from assms(1) have n: "nat (nbits bmeta) \<le> length (bitmap_description bmeta)"
    by (simp add: bit_lines_fit_def)
  from bitmap_message_overflow [OF n assms(2)] obtain s where
    s: "bitmap_message c bmeta = Inl (Overflow s)" by blast
  show ?thesis
  proof (cases "length bitmap_header \<ge> message_size")
    case True
    then show ?thesis by (simp add: bitmap_message_def build_message_def)
  next
    case False
    with s have loop: "message_loop c (bit_line bmeta) [0..<nat (nbits bmeta)] bitmap_header
        = Inl (Overflow s)"
      by (simp add: bitmap_message_def build_message_def)
    from assms(1) have "\<forall>i \<in> set [0..<nat (nbits bmeta)].
        bit_line bmeta i = Inr (description_line (int i) (bitmap_description bmeta ! i)) \<and>
        length (description_line (int i) (bitmap_description bmeta ! i)) < STR_SIZE c"
      by (auto simp: bit_lines_fit_def bit_line_def list_all_iff)
    from message_loop_overflow_message [OF this loop] s show ?thesis by simp
  qed
qed

lemma class_message_overflow_message:
  assumes "class_lines_fit c bmeta" and "message_size \<le> length (class_block bmeta)"
  shows "class_message c bmeta = Inl (Overflow ''Overflow of message string'')"
proof -
  from assms(1) have n: "nat (nclass bmeta) \<le> length (class_values bmeta)"
    by (simp add: class_lines_fit_def)
  from class_message_overflow [OF n assms(2)] obtain s where
    s: "class_message c bmeta = Inl (Overflow s)" by blast
  show ?thesis
  proof (cases "length class_header \<ge> message_size")
    case True
    then show ?thesis by (simp add: class_message_def build_message_def)
  next
    case False
    with s have loop: "message_loop c (class_line bmeta) [0..<nat (nclass bmeta)] class_header
        = Inl (Overflow s)"
      by (simp add: class_message_def build_message_def)
    from assms(1) have "\<forall>i \<in> set [0..<nat (nclass bmeta)].
        class_line bmeta i = Inr (description_line (class_value (class_values bmeta ! i))
                               (description (class_values bmeta ! i))) \<and>
        length (description_line (class_value (class_values bmeta ! i))
                               (description (class_values bmeta ! i))) < STR_SIZE c"
      by (auto simp: class_lines_fit_def class_line_def list_all_iff)
    from message_loop_overflow_message [OF this loop] s show ?thesis by simp
  qed
qed

lemma bits_written_script:
  assumes "bits_written c bmeta"
  shows "snd (put_description c sds (nbits bmeta) ''Bitmap description''
           (bitmap_message c bmeta)) = None"
proof (cases "description_present c (nbits bmeta)")
  case False
  then show ?thesis by (auto simp: put_description_def description_present_def)
next
  case True
  with assms have "bit_lines_fit c bmeta" "length (bitmap_block bmeta) < message_size"
    by (auto simp: bits_written_def)
  then have "bitmap_message c bmeta = Inr (bitmap_block bmeta)"
    by (intro bitmap_message_fits) (auto simp: bit_lines_fit_def list_all_iff)
  then show ?thesis by (simp add: put_description_def)
qed

lemma write_sds_class_emitted:
  assumes "description_present c (nclass bmeta)" and "bits_written c bmeta"
    and "class_message c bmeta = Inr m"
  shows "Put_attr_string sds ''Class description'' m
           \<in> set (fst (write_sds_attributes c sds bmeta))"
  using assms bits_written_script [OF assms(2), of sds]
  by (simp add: write_sds_attributes_def put_description_def fst_seq description_present_def)

lemma write_sds_class_error:
  assumes "description_present c (nclass bmeta)" and "bits_written c bmeta"
    and "class_message c bmeta = Inl e"
  shows "snd (write_sds_attributes c sds bmeta) = Some e"
  using assms bits_written_script [OF assms(2), of sds]
  by (simp add: write_sds_attributes_def put_description_def snd_seq description_present_def)

lemma write_sds_no_error:
  assumes "bits_written c bmeta"
    and "\<not> description_present c (nclass bmeta) \<or>
         (class_lines_fit c bmeta \<and> length (class_block bmeta) < message_size)"
  shows "snd (write_sds_attributes c sds bmeta) = None"
proof -
  have "snd (put_description c sds (nclass bmeta) ''Class description''
           (class_message c bmeta)) = None"
  proof (cases "description_present c (nclass bmeta)")
    case False
    then show ?thesis by (auto simp: put_description_def description_present_def)
  next
    case True
    with assms(2) have "class_lines_fit c bmeta" "length (class_block bmeta) < message_size"
      by auto
    then have "class_message c bmeta = Inr (class_block bmeta)"
      by (intro class_message_fits) (auto simp: class_lines_fit_def list_all_iff)
    then show ?thesis by (simp add: put_description_def)
  qed
  with bits_written_script [OF assms(1), of sds] show ?thesis
    by (simp add: write_sds_attributes_def snd_seq)
qed

text \<open>
  C7.  A bit or class description that is written is the whole block, the header and
  one line per bit or class, shorter than the 5000 bytes of the message.  When the
  block is 5000 characters or more (the descriptions being present), the function
  returns an error and writes no attribute of that name, so nothing cut short is ever
  written; the error is the overflow of the message when every line fits
  \<^verbatim>\<open>tmp_msg\<close> (and, for the classes, the bit descriptions before them were
  written).  A block of bit descriptions that fits, with lines that fit, is written;
  so is a block of class descriptions, once the bit descriptions were written; and
  when both are written or absent the function has no error.
\<close>

theorem description_block_or_failure:
  "(Put_attr_string sds ''Bitmap description'' m
      \<in> set (fst (write_sds_attributes c sds bmeta)) \<longrightarrow>
      nat (nbits bmeta) \<le> length (bitmap_description bmeta) \<and>
      m = bitmap_block bmeta \<and> length m < message_size) \<and>
   (Put_attr_string sds ''Class description'' m
      \<in> set (fst (write_sds_attributes c sds bmeta)) \<longrightarrow>
      nat (nclass bmeta) \<le> length (class_values bmeta) \<and>
      m = class_block bmeta \<and> length m < message_size) \<and>
   (description_present c (nbits bmeta) \<and>
    nat (nbits bmeta) \<le> length (bitmap_description bmeta) \<and>
    message_size \<le> length (bitmap_block bmeta) \<longrightarrow>
      (\<exists>s. snd (write_sds_attributes c sds bmeta) = Some (Overflow s)) \<and>
      \<not> list_ex (\<lambda>x. attr_name x = ''Bitmap description'')
          (fst (write_sds_attributes c sds bmeta)) \<and>
      (bit_lines_fit c bmeta \<longrightarrow>
         snd (write_sds_attributes c sds bmeta)
           = Some (Overflow ''Overflow of message string''))) \<and>
   (description_present c (nclass bmeta) \<and>
    nat (nclass bmeta) \<le> length (class_values bmeta) \<and>
    message_size \<le> length (class_block bmeta) \<longrightarrow>
      snd (write_sds_attributes c sds bmeta) \<noteq> None \<and>
      \<not> list_ex (\<lambda>x. attr_name x = ''Class description'')
          (fst (write_sds_attributes c sds bmeta)) \<and>
      (bits_written c bmeta \<and> class_lines_fit c bmeta \<longrightarrow>
         snd (write_sds_attributes c sds bmeta)
           = Some (Overflow ''Overflow of message string''))) \<and>
   (description_present c (nbits bmeta) \<and> bit_lines_fit c bmeta \<and>
    length (bitmap_block bmeta) < message_size \<longrightarrow>
      Put_attr_string sds ''Bitmap description'' (bitmap_block bmeta)
        \<in> set (fst (write_sds_attributes c sds bmeta))) \<and>
   (description_present c (nclass bmeta) \<and> class_lines_fit c bmeta \<and>
    length (class_block bmeta) < message_size \<and> bits_written c bmeta \<longrightarrow>
      Put_attr_string sds ''Class description'' (class_block bmeta)
        \<in> set (fst (write_sds_attributes c sds bmeta)) \<and>
      snd (write_sds_attributes c sds bmeta) = None)"
proof (intro conjI impI)
  assume a: "Put_attr_string sds ''Bitmap description'' m
      \<in> set (fst (write_sds_attributes c sds bmeta))"
  from write_sds_bitmap [OF a] have "bitmap_message c bmeta = Inr m" by simp
  from bitmap_message_Inr [OF this]
  show "nat (nbits bmeta) \<le> length (bitmap_description bmeta)"
    and "m = bitmap_block bmeta" and "length m < message_size"
    by auto
next
  assume a: "Put_attr_string sds ''Class description'' m
      \<in> set (fst (write_sds_attributes c sds bmeta))"
  from write_sds_class [OF a] have "class_message c bmeta = Inr m" by simp
  from class_message_Inr [OF this]
  show "nat (nclass bmeta) \<le> length (class_values bmeta)"
    and "m = class_block bmeta" and "length m < message_size"
    by auto
next
  assume a: "description_present c (nbits bmeta) \<and>
    nat (nbits bmeta) \<le> length (bitmap_description bmeta) \<and>
    message_size \<le> length (bitmap_block bmeta)"
  then have p: "nbits bmeta \<noteq> ESPA_INT_META_FILL c" "nbits bmeta > 0"
    by (simp_all add: description_present_def)
  from a obtain s where s: "bitmap_message c bmeta = Inl (Overflow s)"
    using bitmap_message_overflow [of bmeta c] by blast
  from write_sds_bitmap_fails [OF p s, of sds]
  show "\<exists>s. snd (write_sds_attributes c sds bmeta) = Some (Overflow s)"
    and "\<not> list_ex (\<lambda>x. attr_name x = ''Bitmap description'')
          (fst (write_sds_attributes c sds bmeta))"
    by simp_all
  assume "bit_lines_fit c bmeta"
  with a have "bitmap_message c bmeta = Inl (Overflow ''Overflow of message string'')"
    by (simp add: bitmap_message_overflow_message)
  from write_sds_bitmap_fails(1) [OF p this, of sds]
  show "snd (write_sds_attributes c sds bmeta) = Some (Overflow ''Overflow of message string'')" .
next
  assume a: "description_present c (nclass bmeta) \<and>
    nat (nclass bmeta) \<le> length (class_values bmeta) \<and>
    message_size \<le> length (class_block bmeta)"
  then have p: "nclass bmeta \<noteq> ESPA_INT_META_FILL c" "nclass bmeta > 0"
    by (simp_all add: description_present_def)
  from a obtain s where s: "class_message c bmeta = Inl (Overflow s)"
    using class_message_overflow [of bmeta c] by blast
  from write_sds_class_fails [OF p s, of sds]
  show "snd (write_sds_attributes c sds bmeta) \<noteq> None"
    and "\<not> list_ex (\<lambda>x. attr_name x = ''Class description'')
          (fst (write_sds_attributes c sds bmeta))"
    by simp_all
  assume b: "bits_written c bmeta \<and> class_lines_fit c bmeta"
  with a have "class_message c bmeta = Inl (Overflow ''Overflow of message string'')"
    by (simp add: class_message_overflow_message)
  with a b show "snd (write_sds_attributes c sds bmeta)
      = Some (Overflow ''Overflow of message string'')"
    by (simp add: write_sds_class_error)
next
  assume a: "description_present c (nbits bmeta) \<and> bit_lines_fit c bmeta \<and>
    length (bitmap_block bmeta) < message_size"
  then have "bitmap_message c bmeta = Inr (bitmap_block bmeta)"
    by (intro bitmap_message_fits) (auto simp: bit_lines_fit_def list_all_iff)
  with a show "Put_attr_string sds ''Bitmap description'' (bitmap_block bmeta)
        \<in> set (fst (write_sds_attributes c sds bmeta))"
    by (intro write_sds_bitmap_emitted) (simp_all add: description_present_def)
next
  assume a: "description_present c (nclass bmeta) \<and> class_lines_fit c bmeta \<and>
    length (class_block bmeta) < message_size \<and> bits_written c bmeta"
  then have "class_message c bmeta = Inr (class_block bmeta)"
    by (intro class_message_fits) (auto simp: class_lines_fit_def list_all_iff)
  with a show "Put_attr_string sds ''Class description'' (class_block bmeta)
        \<in> set (fst (write_sds_attributes c sds bmeta))"
    by (intro write_sds_class_emitted) simp_all
  from a show "snd (write_sds_attributes c sds bmeta) = None"
    by (intro write_sds_no_error) simp_all
qed

lemma class_band_block:
  "class_block class_band =
     [CHR 0x0A, CHR 0x09] @ ''Class  Description'' @ [CHR 0x0A] @
     [CHR 0x09] @ ''0      clear'' @ [CHR 0x0A] @
     [CHR 0x09] @ ''255      fill'' @ [CHR 0x0A]"
  by (simp add: class_block_def class_band_def example_band_def class_header_def
      description_line_def format_d_def dec_digits.simps upt_rec)

lemma qa_band_fits:
  "description_present example_consts (nbits qa_band) \<and> bit_lines_fit example_consts qa_band \<and>
   length (bitmap_block qa_band) < message_size"
  by (simp add: qa_band_block message_size_def)
     (simp add: qa_band_def example_band_def example_consts_def description_line_def
        format_d_def dec_digits.simps upt_rec description_present_def bit_lines_fit_def)

lemma class_band_fits:
  "description_present example_consts (nclass class_band) \<and>
   class_lines_fit example_consts class_band \<and>
   length (class_block class_band) < message_size \<and> bits_written example_consts class_band"
  by (simp add: class_band_block message_size_def)
     (simp add: class_band_def example_band_def example_consts_def description_line_def
        format_d_def dec_digits.simps upt_rec description_present_def class_lines_fit_def
        bits_written_def)

lemma long_band_overflows:
  "description_present example_consts (nbits long_band) \<and>
   nat (nbits long_band) \<le> length (bitmap_description long_band) \<and>
   message_size \<le> length (bitmap_block long_band) \<and>
   bit_lines_fit example_consts long_band"
  by (simp add: long_band_def example_band_def example_consts_def bitmap_block_def
      description_line_def message_size_def upt_rec description_present_def bit_lines_fit_def
      format_d_def dec_digits.simps)

lemma long_class_band_overflows:
  "description_present example_consts (nclass long_class_band) \<and>
   nat (nclass long_class_band) \<le> length (class_values long_class_band) \<and>
   message_size \<le> length (class_block long_class_band) \<and>
   bits_written example_consts long_class_band \<and>
   class_lines_fit example_consts long_class_band"
  by (simp add: long_class_band_def example_band_def example_consts_def class_block_def
      description_line_def message_size_def upt_rec description_present_def
      class_lines_fit_def bits_written_def format_d_def dec_digits.simps)

theorem description_block_or_failure_witness:
  "Put_attr_string (Sds_id ''cloud_QA'') ''Bitmap description''
     ([CHR 0x0A, CHR 0x09] @
      ''Bits are numbered from right to left (bit 0 = LSB, bit N = MSB):'' @
      [CHR 0x0A, CHR 0x09] @ ''Bit    Description'' @ [CHR 0x0A] @
      [CHR 0x09] @ ''0      fill'' @ [CHR 0x0A] @
      [CHR 0x09] @ ''1      cloud'' @ [CHR 0x0A])
     \<in> set (fst (write_sds_attributes example_consts (Sds_id ''cloud_QA'') qa_band)) \<and>
   Put_attr_string (Sds_id ''fmask_band'') ''Class description''
     ([CHR 0x0A, CHR 0x09] @ ''Class  Description'' @ [CHR 0x0A] @
      [CHR 0x09] @ ''0      clear'' @ [CHR 0x0A] @
      [CHR 0x09] @ ''255      fill'' @ [CHR 0x0A])
     \<in> set (fst (write_sds_attributes example_consts (Sds_id ''fmask_band'') class_band)) \<and>
   snd (write_sds_attributes example_consts (Sds_id ''fmask_band'') class_band) = None \<and>
   bit_lines_fit example_consts long_band \<and>
   message_size \<le> length (bitmap_block long_band) \<and>
   snd (write_sds_attributes example_consts (Sds_id ''cloud_QA'') long_band)
     = Some (Overflow ''Overflow of message string'') \<and>
   \<not> list_ex (\<lambda>x. attr_name x = ''Bitmap description'')
       (fst (write_sds_attributes example_consts (Sds_id ''cloud_QA'') long_band)) \<and>
   class_lines_fit example_consts long_class_band \<and>
   message_size \<le> length (class_block long_class_band) \<and>
   snd (write_sds_attributes example_consts (Sds_id ''fmask_band'') long_class_band)
     = Some (Overflow ''Overflow of message string'') \<and>
   \<not> list_ex (\<lambda>x. attr_name x = ''Class description'')
       (fst (write_sds_attributes example_consts (Sds_id ''fmask_band'') long_class_band))"
proof -
  from description_block_or_failure
         [where sds = "Sds_id ''cloud_QA''" and c = example_consts and bmeta = qa_band]
    qa_band_fits
  have bits: "Put_attr_string (Sds_id ''cloud_QA'') ''Bitmap description'' (bitmap_block qa_band)
      \<in> set (fst (write_sds_attributes example_consts (Sds_id ''cloud_QA'') qa_band))"
    by blast
  from description_block_or_failure
         [where sds = "Sds_id ''fmask_band''" and c = example_consts and bmeta = class_band]
    class_band_fits
  have classes: "Put_attr_string (Sds_id ''fmask_band'') ''Class description''
        (class_block class_band)
      \<in> set (fst (write_sds_attributes example_consts (Sds_id ''fmask_band'') class_band))"
    and ok: "snd (write_sds_attributes example_consts (Sds_id ''fmask_band'') class_band) = None"
    by blast+
  from description_block_or_failure
         [where sds = "Sds_id ''cloud_QA''" and c = example_consts and bmeta = long_band]
    long_band_overflows
  have long: "snd (write_sds_attributes example_consts (Sds_id ''cloud_QA'') long_band)
       = Some (Overflow ''Overflow of message string'')"
    "\<not> list_ex (\<lambda>x. attr_name x = ''Bitmap description'')
       (fst (write_sds_attributes example_consts (Sds_id ''cloud_QA'') long_band))"
    by blast+
  from description_block_or_failure
         [where sds = "Sds_id ''fmask_band''" and c = example_consts and bmeta = long_class_band]
    long_class_band_overflows
  have long_class:
    "snd (write_sds_attributes example_consts (Sds_id ''fmask_band'') long_class_band)
       = Some (Overflow ''Overflow of message string'')"
    "\<not> list_ex (\<lambda>x. attr_name x = ''Class description'')
       (fst (write_sds_attributes example_consts (Sds_id ''fmask_band'') long_class_band))"
    by blast+
  from bits classes ok long long_class long_band_overflows long_class_band_overflows
  show ?thesis
    by (simp only: qa_band_block class_band_block) blast
qed

section \<open>The loop over the table\<close>

lemma created_sds_append: "created_sds (xs @ ys) = created_sds xs @ created_sds ys"
  by (induction xs rule: created_sds.induct) auto

lemma created_sds_no_create:
  "list_all (\<lambda>x. attr_name x \<noteq> []) xs \<Longrightarrow> created_sds xs = []"
  by (induction xs rule: created_sds.induct) auto

lemma put_description_attr:
  "an \<noteq> [] \<Longrightarrow> list_all (\<lambda>x. attr_name x \<noteq> []) (fst (put_description c sds n an msg))"
  by (auto simp: put_description_def split: sum.splits)

lemma write_sds_attributes_attr:
  "list_all (\<lambda>x. attr_name x \<noteq> []) (fst (write_sds_attributes c sds bmeta))"
  using put_description_attr [of "''Bitmap description''" c sds "nbits bmeta" "bitmap_message c bmeta"]
    put_description_attr [of "''Class description''" c sds "nclass bmeta" "class_message c bmeta"]
  by (auto simp: write_sds_attributes_def fst_seq numeric_attributes_def)

lemma created_sds_create_sds:
  "created_sds (fst (create_sds c slot bmeta)) =
     (if hdf_data_type (data_type bmeta) = Inl Unsupported_data_type then [] else [snd slot])"
  using created_sds_no_create [OF write_sds_attributes_attr [of c "Sds_id (snd slot)" bmeta]]
  by (cases "data_type bmeta")
     (auto simp: create_sds_def fst_seq created_sds_append)

lemma band_loop_filter:
  assumes "\<And>b. name b = fst slot \<Longrightarrow> P b"
  shows "band_loop c slot (filter P bands) = band_loop c slot bands"
  using assms by (induction bands) auto

lemma bnd_found_filter:
  assumes "\<And>b. name b = fst slot \<Longrightarrow> P b"
  shows "bnd_found slot (filter P bands) = bnd_found slot bands"
  using assms by (induction bands) (auto simp: bnd_found_def)

lemma sds_loop_filter:
  assumes "\<forall>s \<in> set slots. \<forall>b. name b = fst (snd s) \<longrightarrow> P b"
  shows "sds_loop c (filter P bands) slots = sds_loop c bands slots"
  using assms
proof (induction slots)
  case Nil
  then show ?case by simp
next
  case (Cons s slots)
  obtain bnd slot where s: "s = (bnd, slot)" by (cases s)
  from Cons.prems s have P: "\<And>b. name b = fst slot \<Longrightarrow> P b" by simp
  from Cons have rest: "sds_loop c (filter P bands) slots = sds_loop c bands slots"
    by simp
  show ?case
    by (simp add: s band_loop_filter [of slot P, OF P] bnd_found_filter [of slot P, OF P] rest)
qed

lemma band_loop_only_matching:
  "band_loop c slot bands = band_loop c slot (filter (\<lambda>b. name b = fst slot) bands)"
  by (rule band_loop_filter [symmetric]) simp

lemma snd_band_loop_None:
  "snd (band_loop c slot bands) = None \<longleftrightarrow>
   list_all (\<lambda>b. name b = fst slot \<longrightarrow> snd (create_sds c slot b) = None) bands"
  by (induction bands) (auto simp: snd_seq)

lemma snd_band_loop_Some:
  "snd (band_loop c slot bands) = Some e \<Longrightarrow>
   list_ex (\<lambda>b. name b = fst slot \<and> snd (create_sds c slot b) = Some e) bands"
  by (induction bands) (auto simp: snd_seq split: if_splits)

lemma created_band_loop:
  "prefix (created_sds (fst (band_loop c slot bands)))
     (replicate (length (filter (\<lambda>b. name b = fst slot) bands)) (snd slot)) \<and>
   (snd (band_loop c slot bands) = None \<longrightarrow>
      created_sds (fst (band_loop c slot bands)) =
        replicate (length (filter (\<lambda>b. name b = fst slot) bands)) (snd slot))"
proof (induction bands)
  case Nil
  then show ?case by simp
next
  case (Cons b bands)
  show ?case
  proof (cases "name b = fst slot")
    case False
    with Cons show ?thesis by simp
  next
    case True
    show ?thesis
    proof (cases "snd (create_sds c slot b)")
      case None
      then have "hdf_data_type (data_type b) \<noteq> Inl Unsupported_data_type"
        by (auto simp: create_sds_def)
      with None True Cons show ?thesis
        by (simp add: fst_seq snd_seq created_sds_append created_sds_create_sds)
    next
      case (Some e)
      with True show ?thesis
        by (auto simp: fst_seq snd_seq created_sds_create_sds)
    qed
  qed
qed

lemma created_sds_loop:
  "prefix (created_sds (fst (sds_loop c bands slots))) (table_order bands (map snd slots)) \<and>
   (snd (sds_loop c bands slots) = None \<longrightarrow>
      created_sds (fst (sds_loop c bands slots)) = table_order bands (map snd slots))"
proof (induction slots)
  case Nil
  then show ?case by (simp add: table_order_def)
next
  case (Cons s slots)
  obtain bnd slot where s: "s = (bnd, slot)" by (cases s)
  let ?n = "replicate (length (filter (\<lambda>b. name b = fst slot) bands)) (snd slot)"
  have order: "table_order bands (slot # map snd slots) = ?n @ table_order bands (map snd slots)"
    by (simp add: table_order_def)
  note bl = created_band_loop [of c slot bands]
  show ?case
  proof (cases "snd (band_loop c slot bands)")
    case (Some e)
    with bl have "prefix (created_sds (fst (band_loop c slot bands)))
        (?n @ table_order bands (map snd slots))"
      by (simp add: prefix_prefix)
    with Some show ?thesis
      by (simp add: s order fst_seq snd_seq)
  next
    case None
    with bl have eq: "created_sds (fst (band_loop c slot bands)) = ?n" by simp
    show ?thesis
    proof (cases "\<not> bnd_found slot bands \<and> bnd \<noteq> NOLD_SR - 1")
      case True
      with None eq show ?thesis
        by (simp add: s order fst_seq snd_seq created_sds_append)
    next
      case False
      with None eq Cons.IH show ?thesis
        by (simp add: s order fst_seq snd_seq created_sds_append)
    qed
  qed
qed

lemma length_filter_mset:
  assumes "mset xs = mset ys"
  shows "length (filter P xs) = length (filter P ys)"
proof -
  from assms have "mset (filter P xs) = mset (filter P ys)" by simp
  then show ?thesis by (rule mset_eq_length)
qed

lemma table_order_mset:
  "mset bands' = mset bands \<Longrightarrow> table_order bands' table = table_order bands table"
  by (simp add: table_order_def length_filter_mset [of bands' bands])

lemma snd_sds_loop_None:
  "snd (sds_loop c bands slots) = None \<longleftrightarrow>
   list_all (\<lambda>s. snd (band_loop c (snd s) bands) = None \<and>
                  (bnd_found (snd s) bands \<or> fst s = NOLD_SR - 1)) slots"
proof (induction slots)
  case Nil
  then show ?case by simp
next
  case (Cons s slots)
  obtain bnd slot where s: "s = (bnd, slot)" by (cases s)
  from Cons show ?case by (auto simp: s snd_seq)
qed

lemma snd_band_loop_set:
  "set bands' = set bands \<Longrightarrow>
   snd (band_loop c slot bands') = None \<longleftrightarrow> snd (band_loop c slot bands) = None"
  by (simp add: snd_band_loop_None list_all_iff)

lemma bnd_found_set:
  "set bands' = set bands \<Longrightarrow> bnd_found slot bands' = bnd_found slot bands"
  by (simp add: bnd_found_def list_ex_iff)

lemma snd_sds_loop_mset:
  assumes "mset bands' = mset bands"
  shows "snd (sds_loop c bands' slots) = None \<longleftrightarrow> snd (sds_loop c bands slots) = None"
proof -
  from assms have "set bands' = set bands" by (rule mset_eq_setD)
  then show ?thesis
    by (simp add: snd_sds_loop_None snd_band_loop_set [of bands' bands]
        bnd_found_set [of bands' bands])
qed

lemma filter_distinct_name:
  "distinct (map name bands) \<Longrightarrow> length (filter (\<lambda>b. name b = m) bands) \<le> 1"
proof (induction bands)
  case Nil
  then show ?case by simp
next
  case (Cons b bands)
  show ?case
  proof (cases "name b = m")
    case True
    from Cons.prems have "name b \<notin> name ` set bands" by simp
    with True have "\<forall>x \<in> set bands. name x \<noteq> m" by (metis imageI)
    then have "filter (\<lambda>b. name b = m) bands = []"
      by (simp add: filter_empty_conv)
    with True show ?thesis by simp
  next
    case False
    with Cons show ?thesis by simp
  qed
qed

lemma mset_eq_short:
  assumes "mset xs = mset ys" and "length xs \<le> 1"
  shows "xs = ys"
proof -
  from assms(1) have len: "length ys = length xs" by (metis mset_eq_length)
  show ?thesis
  proof (cases xs)
    case Nil
    with assms(1) show ?thesis by simp
  next
    case (Cons x xs')
    with assms(2) have xs: "xs = [x]" by simp
    with len obtain y where ys: "ys = [y]" by (cases ys) auto
    from assms(1) xs ys show ?thesis by simp
  qed
qed

lemma band_loop_distinct_mset:
  assumes "distinct (map name bands)" and "mset bands' = mset bands"
  shows "band_loop c slot bands' = band_loop c slot bands"
proof -
  let ?P = "\<lambda>b. name b = fst slot"
  from assms(2) have "mset (filter ?P bands) = mset (filter ?P bands')" by simp
  from mset_eq_short [OF this filter_distinct_name [OF assms(1)]]
  have "filter ?P bands = filter ?P bands'" .
  then show ?thesis
    using band_loop_only_matching [of c slot bands] band_loop_only_matching [of c slot bands']
    by simp
qed

lemma sds_loop_distinct_mset:
  assumes "distinct (map name bands)" and "mset bands' = mset bands"
  shows "sds_loop c bands' slots = sds_loop c bands slots"
proof (induction slots)
  case Nil
  then show ?case by simp
next
  case (Cons s slots)
  obtain bnd slot where s: "s = (bnd, slot)" by (cases s)
  from assms(2) have "set bands' = set bands" by (rule mset_eq_setD)
  with Cons show ?case
    by (simp add: s band_loop_distinct_mset [OF assms] bnd_found_set [of bands' bands])
qed

lemma put_description_error:
  assumes "snd (put_description c sds n an msg) = Some e"
  shows "msg = Inl e"
  using assms by (auto simp: put_description_def split: if_splits sum.splits)

lemma build_message_error:
  assumes "build_message c header line n = Inl e"
    and "\<And>i e'. line i = Inl e' \<Longrightarrow> e' = Out_of_bounds"
  shows "(\<exists>s. e = Overflow s) \<or> e = Out_of_bounds"
proof (cases "length header \<ge> message_size")
  case True
  with assms(1) show ?thesis by (auto simp: build_message_def)
next
  case False
  with assms(1) have "message_loop c line [0..<nat n] header = Inl e"
    by (simp add: build_message_def)
  from message_loop_Inl [OF this] assms(2) show ?thesis by blast
qed

lemma write_sds_attributes_error:
  assumes "snd (write_sds_attributes c sds bmeta) = Some e"
  shows "(\<exists>s. e = Overflow s) \<or> e = Out_of_bounds"
proof -
  have bit: "\<And>i e'. bit_line bmeta i = Inl e' \<Longrightarrow> e' = Out_of_bounds"
    by (auto simp: bit_line_def split: if_splits)
  have cls: "\<And>i e'. class_line bmeta i = Inl e' \<Longrightarrow> e' = Out_of_bounds"
    by (auto simp: class_line_def split: if_splits)
  from assms have "bitmap_message c bmeta = Inl e \<or> class_message c bmeta = Inl e"
    by (auto simp: write_sds_attributes_def snd_seq split: if_splits
        dest: put_description_error)
  then show ?thesis
    using build_message_error [of c bitmap_header "bit_line bmeta" "nbits bmeta" e, OF _ bit]
      build_message_error [of c class_header "class_line bmeta" "nclass bmeta" e, OF _ cls]
    by (auto simp: bitmap_message_def class_message_def)
qed

lemma create_sds_error:
  assumes "snd (create_sds c slot bmeta) = Some e"
  shows "e = Unsupported_data_type \<or> (\<exists>s. e = Overflow s) \<or> e = Out_of_bounds"
proof (cases "hdf_data_type (data_type bmeta)")
  case (Inl a)
  then have "a = Unsupported_data_type" by (cases "data_type bmeta") auto
  with Inl assms show ?thesis by (simp add: create_sds_def)
next
  case (Inr dt)
  with assms have "snd (write_sds_attributes c (Sds_id (snd slot)) bmeta) = Some e"
    by (auto simp: create_sds_def snd_seq split: if_splits)
  from write_sds_attributes_error [OF this] show ?thesis by blast
qed

lemma band_loop_not_missing:
  "snd (band_loop c slot bands) \<noteq> Some (Band_not_found m)"
proof
  assume "snd (band_loop c slot bands) = Some (Band_not_found m)"
  from snd_band_loop_Some [OF this] obtain b where
    "snd (create_sds c slot b) = Some (Band_not_found m)"
    by (auto simp: list_ex_iff)
  from create_sds_error [OF this] show False by auto
qed

lemma band_loop_unmatched:
  "\<not> bnd_found slot bands \<Longrightarrow> band_loop c slot bands = calls []"
  by (induction bands) (auto simp: bnd_found_def)

section \<open>The example scene\<close>

lemma example_names: "map name example_bands = map fst hdfname_mapping"
  by (simp add: example_bands_def hdfname_mapping_def example_band_def)

lemma bnd_found_names: "bnd_found slot bands \<longleftrightarrow> fst slot \<in> set (map name bands)"
  by (force simp: bnd_found_def list_ex_iff)

lemma example_band_in:
  "b \<in> set example_bands \<Longrightarrow> \<exists>n g a. b = example_band n g a"
  by (auto simp: example_bands_def)

lemma create_sds_example:
  "snd (create_sds example_consts slot (example_band n g a)) = None"
  by (simp add: create_sds_def example_band_def example_consts_def snd_seq
      write_sds_attributes_def put_description_def)

lemma band_loop_example:
  assumes "set bands \<subseteq> set example_bands"
  shows "snd (band_loop example_consts slot bands) = None"
  using assms example_band_in create_sds_example
  by (fastforce simp: snd_band_loop_None list_all_iff)

lemma sds_loop_example:
  "snd (sds_loop example_consts example_bands (enumerate 0 hdfname_mapping)) = None"
proof -
  have "snd ` set (enumerate 0 hdfname_mapping) = set hdfname_mapping"
    by (metis map_snd_enumerate set_map)
  then have "\<forall>s \<in> set (enumerate 0 hdfname_mapping). snd s \<in> set hdfname_mapping"
    by blast
  then have "\<forall>s \<in> set (enumerate 0 hdfname_mapping). bnd_found (snd s) example_bands"
    by (simp add: bnd_found_names example_names)
  then show ?thesis
    by (simp add: snd_sds_loop_None list_all_iff band_loop_example)
qed

lemma table_order_example:
  "table_order example_bands hdfname_mapping = map snd hdfname_mapping"
proof -
  have "\<And>m. length (filter (\<lambda>b. name b = m) example_bands)
          = length (filter (\<lambda>n. n = m) (map name example_bands))"
    by (simp add: filter_map comp_def)
  then show ?thesis
    by (simp add: table_order_def example_names) (simp add: hdfname_mapping_def)
qed

text \<open>
  C4.  For a band list and any permutation of it: the data sets are created under
  the legacy names in the order of the table, one per band of the modern name of the
  row (what has been created when the loop stops on an error is a beginning of that
  order); when the loop succeeds on the list, which needs a band for every required
  row, it succeeds on the permutation and creates exactly that sequence; and when
  the band names are distinct, the loop does the same calls and returns the same
  result on the permutation.
\<close>

theorem legacy_table_order:
  assumes "mset bands' = mset bands"
  shows "prefix (created_sds (fst (sds_loop c bands' (enumerate 0 hdfname_mapping))))
           (table_order bands hdfname_mapping) \<and>
         (snd (sds_loop c bands (enumerate 0 hdfname_mapping)) = None \<longrightarrow>
            snd (sds_loop c bands' (enumerate 0 hdfname_mapping)) = None \<and>
            created_sds (fst (sds_loop c bands' (enumerate 0 hdfname_mapping)))
              = table_order bands hdfname_mapping) \<and>
         (distinct (map name bands) \<longrightarrow>
            sds_loop c bands' (enumerate 0 hdfname_mapping)
              = sds_loop c bands (enumerate 0 hdfname_mapping))"
  using created_sds_loop [of c bands' "enumerate 0 hdfname_mapping"]
    table_order_mset [OF assms, of hdfname_mapping]
    snd_sds_loop_mset [OF assms, of c "enumerate 0 hdfname_mapping"]
    sds_loop_distinct_mset [OF _ assms, of c "enumerate 0 hdfname_mapping"]
  by (simp add: map_snd_enumerate)

theorem legacy_table_order_witness:
  "mset (rev example_bands) = mset example_bands \<and>
   snd (sds_loop example_consts example_bands (enumerate 0 hdfname_mapping)) = None \<and>
   distinct (map name example_bands) \<and>
   snd (sds_loop example_consts (rev example_bands) (enumerate 0 hdfname_mapping)) = None \<and>
   created_sds (fst (sds_loop example_consts (rev example_bands) (enumerate 0 hdfname_mapping)))
     = [''band1'', ''band2'', ''band3'', ''band4'', ''band5'', ''band7'', ''atmos_opacity'',
        ''fill_QA'', ''DDV_QA'', ''cloud_QA'', ''cloud_shadow_QA'', ''snow_QA'',
        ''land_water_QA'', ''adjacent_cloud_QA'', ''band6'', ''band6_fill_QA'',
        ''fmask_band''] \<and>
   sds_loop example_consts (rev example_bands) (enumerate 0 hdfname_mapping)
     = sds_loop example_consts example_bands (enumerate 0 hdfname_mapping)"
proof -
  have perm: "mset (rev example_bands) = mset example_bands" by simp
  have dist: "distinct (map name example_bands)"
    by (simp add: example_names) (simp add: hdfname_mapping_def)
  have names: "map snd hdfname_mapping =
      [''band1'', ''band2'', ''band3'', ''band4'', ''band5'', ''band7'', ''atmos_opacity'',
        ''fill_QA'', ''DDV_QA'', ''cloud_QA'', ''cloud_shadow_QA'', ''snow_QA'',
        ''land_water_QA'', ''adjacent_cloud_QA'', ''band6'', ''band6_fill_QA'',
        ''fmask_band'']"
    by (simp add: hdfname_mapping_def)
  note th = legacy_table_order [OF perm, of example_consts]
  from th sds_loop_example
  have ok: "snd (sds_loop example_consts (rev example_bands) (enumerate 0 hdfname_mapping)) = None"
    by blast
  from th sds_loop_example
  have "created_sds (fst (sds_loop example_consts (rev example_bands)
          (enumerate 0 hdfname_mapping))) = table_order example_bands hdfname_mapping"
    by blast
  then have order: "created_sds (fst (sds_loop example_consts (rev example_bands)
          (enumerate 0 hdfname_mapping))) =
      [''band1'', ''band2'', ''band3'', ''band4'', ''band5'', ''band7'', ''atmos_opacity'',
        ''fill_QA'', ''DDV_QA'', ''cloud_QA'', ''cloud_shadow_QA'', ''snow_QA'',
        ''land_water_QA'', ''adjacent_cloud_QA'', ''band6'', ''band6_fill_QA'',
        ''fmask_band'']"
    by (simp only: table_order_example names)
  from th dist
  have same: "sds_loop example_consts (rev example_bands) (enumerate 0 hdfname_mapping)
     = sds_loop example_consts example_bands (enumerate 0 hdfname_mapping)"
    by blast
  from perm sds_loop_example dist ok order same show ?thesis by blast
qed

section \<open>Missing bands\<close>

lemma created_fmask:
  assumes "\<not> bnd_found (''fmask'', ''fmask_band'') bands"
  shows "''fmask_band'' \<notin> set (created_sds (fst (sds_loop c bands (enumerate 0 hdfname_mapping))))"
proof
  assume "''fmask_band'' \<in> set (created_sds (fst (sds_loop c bands (enumerate 0 hdfname_mapping))))"
  with created_sds_loop [of c bands "enumerate 0 hdfname_mapping"]
  have "''fmask_band'' \<in> set (table_order bands hdfname_mapping)"
    by (auto simp: map_snd_enumerate dest: set_mono_prefix)
  then obtain slot where slot: "slot \<in> set hdfname_mapping" "snd slot = ''fmask_band''"
    and ne: "filter (\<lambda>b. name b = fst slot) bands \<noteq> []"
    by (auto simp: table_order_def)
  from slot have "slot = (''fmask'', ''fmask_band'')"
    by (auto simp: hdfname_mapping_def)
  with ne assms show False
    by (auto simp: bnd_found_def list_ex_iff filter_empty_conv)
qed

lemma find_None_all: "find P xs = None \<longleftrightarrow> list_all (\<lambda>x. \<not> P x) xs"
  by (induction xs) auto

lemma sds_loop_all_found:
  assumes "find (required_missing bands) slots = None"
  shows "snd (sds_loop c bands slots) = None \<longleftrightarrow>
         list_all (\<lambda>slot. list_all (\<lambda>b. name b = fst slot \<longrightarrow>
                     snd (create_sds c slot b) = None) bands) (map snd slots)"
proof -
  from assms have "\<forall>s \<in> set slots. bnd_found (snd s) bands \<or> fst s = NOLD_SR - 1"
    by (auto simp: find_None_all list_all_iff required_missing_def)
  then show ?thesis
    by (auto simp: snd_sds_loop_None snd_band_loop_None list_all_iff)
qed

lemma find_required_missing_Nil:
  "find (required_missing []) (enumerate 0 hdfname_mapping) = Some (0, ''sr_band1'', ''band1'')"
  by (simp add: hdfname_mapping_def required_missing_def bnd_found_def NOLD_SR_def)

lemma butlast_example_names:
  "map name (butlast example_bands) = butlast (map fst hdfname_mapping)"
  by (simp add: map_butlast example_names)

lemma find_required_missing_butlast:
  "find (required_missing (butlast example_bands)) (enumerate 0 hdfname_mapping) = None"
  by (simp add: find_None_all required_missing_def bnd_found_names butlast_example_names)
     (simp add: hdfname_mapping_def NOLD_SR_def)

lemma snd_band_loop_find:
  "snd (band_loop c slot bands) =
     (case find (\<lambda>b. name b = fst slot \<and> snd (create_sds c slot b) \<noteq> None) bands of
        None \<Rightarrow> None
      | Some b \<Rightarrow> snd (create_sds c slot b))"
  by (induction bands) (auto simp: snd_seq)

lemma band_loop_fails_iff:
  "snd (band_loop c slot bands) \<noteq> None \<longleftrightarrow>
   list_ex (\<lambda>b. name b = fst slot \<and> snd (create_sds c slot b) \<noteq> None) bands"
  by (auto simp: snd_band_loop_None list_all_iff list_ex_iff)

lemma first_write_error_Nil: "first_write_error c bands [] = None"
  by (simp add: first_write_error_def)

lemma first_write_error_Cons:
  "first_write_error c bands (x # rows) =
     (if snd (band_loop c (snd x) bands) \<noteq> None then snd (band_loop c (snd x) bands)
      else first_write_error c bands rows)"
proof (cases "snd (band_loop c (snd x) bands) \<noteq> None")
  case True
  then have "list_ex (\<lambda>b. name b = fst (snd x) \<and> snd (create_sds c (snd x) b) \<noteq> None) bands"
    using band_loop_fails_iff [of c "snd x" bands] by blast
  with True show ?thesis
    by (simp add: first_write_error_def snd_band_loop_find [of c "snd x" bands])
next
  case False
  then have "\<not> list_ex (\<lambda>b. name b = fst (snd x) \<and> snd (create_sds c (snd x) b) \<noteq> None) bands"
    using band_loop_fails_iff [of c "snd x" bands] by blast
  with False show ?thesis
    by (simp add: first_write_error_def)
qed

lemma sds_loop_exact_found:
  assumes "find (required_missing bands) slots = None"
  shows "snd (sds_loop c bands slots) = first_write_error c bands slots"
  using assms
proof (induction slots)
  case Nil
  then show ?case by (simp add: first_write_error_Nil)
next
  case (Cons s0 slots)
  obtain bnd slot where s0: "s0 = (bnd, slot)" by (cases s0)
  from Cons.prems have nm: "\<not> required_missing bands s0"
    and rest: "find (required_missing bands) slots = None"
    by (auto split: if_splits)
  from nm Cons.IH [OF rest] show ?case
    by (auto simp: s0 snd_seq first_write_error_Cons required_missing_def)
qed

lemma sds_loop_exact_missing:
  assumes "find (required_missing bands) slots = Some s"
  shows "snd (sds_loop c bands slots) =
     (case first_write_error c bands (takeWhile (\<lambda>x. \<not> required_missing bands x) slots) of
        Some e \<Rightarrow> Some e
      | None \<Rightarrow> Some (Band_not_found (fst (snd s))))"
  using assms
proof (induction slots)
  case Nil
  then show ?case by simp
next
  case (Cons s0 slots)
  obtain bnd slot where s0: "s0 = (bnd, slot)" by (cases s0)
  show ?case
  proof (cases "required_missing bands s0")
    case True
    with Cons.prems have "s = s0" by simp
    moreover from True have "band_loop c slot bands = calls []"
      by (simp add: required_missing_def s0 band_loop_unmatched)
    ultimately show ?thesis using True
      by (simp add: s0 required_missing_def first_write_error_Nil)
  next
    case False
    with Cons.prems have "find (required_missing bands) slots = Some s" by simp
    from Cons.IH [OF this] False show ?thesis
      by (auto simp: s0 snd_seq first_write_error_Cons required_missing_def
          split: option.splits)
  qed
qed

lemma first_write_error_not_missing:
  "first_write_error c bands rows \<noteq> Some (Band_not_found m)"
proof (induction rows)
  case Nil
  then show ?case by (simp add: first_write_error_Nil)
next
  case (Cons x rows)
  with band_loop_not_missing [of c "snd x" bands m] show ?case
    by (simp add: first_write_error_Cons)
qed

text \<open>
  C3, as the code has it.  The rows of the table are taken in order with their
  index; the first row that is not the last one (\<^verbatim>\<open>fmask\<close>) and whose modern name no
  band has decides.  If a band of a row before it is not written, the loop returns
  the error of the first such band, which is never the error of a missing band;
  otherwise it returns the error that names that row.  When there is no such row,
  the loop returns the error of the first band that is not written, and none when
  all are written: no band is reported missing, with a band named \<^verbatim>\<open>fmask\<close> or
  without.  Without a band named \<^verbatim>\<open>fmask\<close> no data set \<^verbatim>\<open>fmask_band\<close> is created.
\<close>

theorem missing_required_band:
  "(case find (required_missing bands) (enumerate 0 hdfname_mapping) of
      Some s \<Rightarrow>
        snd (sds_loop c bands (enumerate 0 hdfname_mapping)) =
          (case first_write_error c bands
                  (takeWhile (\<lambda>x. \<not> required_missing bands x) (enumerate 0 hdfname_mapping)) of
             Some e \<Rightarrow> Some e
           | None \<Rightarrow> Some (Band_not_found (fst (snd s))))
    | None \<Rightarrow>
        snd (sds_loop c bands (enumerate 0 hdfname_mapping))
          = first_write_error c bands (enumerate 0 hdfname_mapping) \<and>
        (snd (sds_loop c bands (enumerate 0 hdfname_mapping)) = None \<longleftrightarrow>
           list_all (\<lambda>slot. list_all (\<lambda>b. name b = fst slot \<longrightarrow>
                       snd (create_sds c slot b) = None) bands) hdfname_mapping)) \<and>
   first_write_error c bands rows \<noteq> Some (Band_not_found m) \<and>
   (\<not> bnd_found (''fmask'', ''fmask_band'') bands \<longrightarrow>
      ''fmask_band'' \<notin> set (created_sds (fst (sds_loop c bands (enumerate 0 hdfname_mapping)))))"
proof (cases "find (required_missing bands) (enumerate 0 hdfname_mapping)")
  case None
  with sds_loop_exact_found [OF None, of c] sds_loop_all_found [OF None, of c]
    created_fmask [of bands c] first_write_error_not_missing [of c bands rows m]
  show ?thesis by (simp add: map_snd_enumerate)
next
  case (Some s)
  with sds_loop_exact_missing [OF Some, of c] created_fmask [of bands c]
    first_write_error_not_missing [of c bands rows m]
  show ?thesis by simp
qed

lemma unsupported_band_error:
  "snd (create_sds example_consts (''sr_band1'', ''band1'') unsupported_band)
     = Some Unsupported_data_type"
  by (simp add: create_sds_def unsupported_band_def example_band_def)

lemma unsupported_names:
  "map name (unsupported_band # drop 2 example_bands)
     = ''sr_band1'' # drop 2 (map fst hdfname_mapping)"
  by (simp add: drop_map [symmetric] example_names unsupported_band_def example_band_def)

lemma bnd_found_unsupported:
  "bnd_found slot (unsupported_band # drop 2 example_bands) \<longleftrightarrow>
     fst slot \<in> set (''sr_band1'' # drop 2 (map fst hdfname_mapping))"
  unfolding bnd_found_names unsupported_names ..

lemma find_required_missing_unsupported:
  "find (required_missing (unsupported_band # drop 2 example_bands))
      (enumerate 0 hdfname_mapping) = Some (1, ''sr_band2'', ''band2'')"
  by (simp add: required_missing_def bnd_found_unsupported hdfname_mapping_def NOLD_SR_def)

lemma takeWhile_unsupported:
  "takeWhile (\<lambda>x. \<not> required_missing (unsupported_band # drop 2 example_bands) x)
      (enumerate 0 hdfname_mapping) = [(0, ''sr_band1'', ''band1'')]"
  by (simp add: required_missing_def bnd_found_unsupported hdfname_mapping_def NOLD_SR_def)

lemma first_write_error_unsupported:
  "first_write_error example_consts (unsupported_band # drop 2 example_bands)
      [(0, ''sr_band1'', ''band1'')] = Some Unsupported_data_type"
  using unsupported_band_error
  by (simp add: first_write_error_def unsupported_band_def example_band_def)

theorem missing_required_band_witness:
  "snd (sds_loop example_consts [] (enumerate 0 hdfname_mapping))
     = Some (Band_not_found ''sr_band1'') \<and>
   find (required_missing (unsupported_band # drop 2 example_bands))
      (enumerate 0 hdfname_mapping) = Some (1, ''sr_band2'', ''band2'') \<and>
   snd (sds_loop example_consts (unsupported_band # drop 2 example_bands)
          (enumerate 0 hdfname_mapping)) = Some Unsupported_data_type \<and>
   find (required_missing (butlast example_bands)) (enumerate 0 hdfname_mapping) = None \<and>
   \<not> bnd_found (''fmask'', ''fmask_band'') (butlast example_bands) \<and>
   snd (sds_loop example_consts (butlast example_bands) (enumerate 0 hdfname_mapping)) = None \<and>
   ''fmask_band'' \<notin> set (created_sds (fst (sds_loop example_consts (butlast example_bands)
                          (enumerate 0 hdfname_mapping))))"
proof -
  have nil_rows: "takeWhile (\<lambda>x. \<not> required_missing [] x) (enumerate 0 hdfname_mapping) = []"
    by (simp add: hdfname_mapping_def required_missing_def bnd_found_def NOLD_SR_def)
  have nil: "snd (sds_loop example_consts [] (enumerate 0 hdfname_mapping))
     = Some (Band_not_found ''sr_band1'')"
    using missing_required_band [where bands = "[]" and c = example_consts and rows = "[]" and m = "[]"]
    by (simp add: find_required_missing_Nil nil_rows first_write_error_Nil)
  have unsupported: "snd (sds_loop example_consts (unsupported_band # drop 2 example_bands)
          (enumerate 0 hdfname_mapping)) = Some Unsupported_data_type"
    using missing_required_band
      [where bands = "unsupported_band # drop 2 example_bands" and c = example_consts
         and rows = "[]" and m = "[]"]
    by (simp add: find_required_missing_unsupported takeWhile_unsupported
        first_write_error_unsupported)
  have nofmask: "\<not> bnd_found (''fmask'', ''fmask_band'') (butlast example_bands)"
    by (simp add: bnd_found_names butlast_example_names) (simp add: hdfname_mapping_def)
  have written: "list_all (\<lambda>slot. list_all (\<lambda>b. name b = fst slot \<longrightarrow>
                       snd (create_sds example_consts slot b) = None) (butlast example_bands))
                  hdfname_mapping"
    using example_band_in create_sds_example
    by (fastforce simp: list_all_iff dest: in_set_butlastD)
  note th = missing_required_band [where bands = "butlast example_bands" and c = example_consts
      and rows = "[]" and m = "[]", unfolded find_required_missing_butlast option.case]
  from th nofmask written
  have "snd (sds_loop example_consts (butlast example_bands) (enumerate 0 hdfname_mapping)) = None"
    and "''fmask_band'' \<notin> set (created_sds (fst (sds_loop example_consts (butlast example_bands)
                          (enumerate 0 hdfname_mapping))))"
    by blast+
  with nil unsupported find_required_missing_unsupported find_required_missing_butlast nofmask
  show ?thesis by blast
qed

theorem missing_band_error_counterexample:
  "(''sr_band2'', ''band2'') \<in> set (butlast hdfname_mapping) \<and>
   \<not> bnd_found (''sr_band2'', ''band2'') [] \<and>
   snd (sds_loop example_consts [] (enumerate 0 hdfname_mapping))
     \<noteq> Some (Band_not_found ''sr_band2'') \<and>
   \<not> bnd_found (''sr_band2'', ''band2'') (unsupported_band # drop 2 example_bands) \<and>
   snd (sds_loop example_consts (unsupported_band # drop 2 example_bands)
          (enumerate 0 hdfname_mapping))
     = Some Unsupported_data_type"
proof -
  have a: "(''sr_band2'', ''band2'') \<in> set (butlast hdfname_mapping)"
    by (simp add: hdfname_mapping_def)
  have b: "\<not> bnd_found (''sr_band2'', ''band2'') []"
    by (simp add: bnd_found_def)
  have d: "snd (sds_loop example_consts [] (enumerate 0 hdfname_mapping))
     \<noteq> Some (Band_not_found ''sr_band2'')"
    by (simp add: hdfname_mapping_def bnd_found_def NOLD_SR_def snd_seq)
  have e: "\<not> bnd_found (''sr_band2'', ''band2'') (unsupported_band # drop 2 example_bands)"
    by (simp add: bnd_found_names drop_map [symmetric] example_names unsupported_band_def
        example_band_def)
       (simp add: hdfname_mapping_def)
  have "create_sds example_consts (''sr_band1'', ''band1'') unsupported_band
          = fail Unsupported_data_type"
    by (simp add: create_sds_def unsupported_band_def example_band_def)
  then have f: "snd (sds_loop example_consts (unsupported_band # drop 2 example_bands)
          (enumerate 0 hdfname_mapping))
     = Some Unsupported_data_type"
    by (simp add: hdfname_mapping_def unsupported_band_def example_band_def)
  from a b d e f show ?thesis by blast
qed

section \<open>Bands that are in no row of the table\<close>

lemma sds_loop_sixteen:
  assumes "snd (sds_loop c bands (enumerate 0 hdfname_mapping)) = None"
  shows "16 \<le> length bands"
proof -
  from assms have "list_all (\<lambda>s. bnd_found (snd s) bands \<or> fst s = NOLD_SR - 1)
      (enumerate 0 hdfname_mapping)"
    by (simp add: snd_sds_loop_None list_all_iff)
  then have sub: "set (butlast (map fst hdfname_mapping)) \<subseteq> set (map name bands)"
    by (simp add: hdfname_mapping_def NOLD_SR_def bnd_found_names)
  have "distinct (butlast (map fst hdfname_mapping))"
    by (simp add: hdfname_mapping_def)
  then have "card (set (butlast (map fst hdfname_mapping)))
      = length (butlast (map fst hdfname_mapping))"
    by (rule distinct_card)
  then have "card (set (butlast (map fst hdfname_mapping))) = 16"
    by (simp add: hdfname_mapping_def)
  with card_mono [OF _ sub] have "16 \<le> card (set (map name bands))" by simp
  also have "\<dots> \<le> length (map name bands)" by (rule card_length)
  finally show ?thesis by simp
qed

lemma gain_bias_loop_in_bounds:
  assumes "\<forall>i \<in> set idx. i < length bands"
  shows "\<exists>cal'. gain_bias_loop cls bands idx cal = Inr cal'"
  using assms
proof (induction idx arbitrary: cal)
  case Nil
  then show ?case by simp
next
  case (Cons i rest)
  then show ?case by (cases "cls i") (simp_all add: band_at_def)
qed

lemma gains_and_biases_in_bounds:
  assumes "11 \<le> length bands"
  shows "\<exists>cal. gains_and_biases c inst bands = Inr cal"
proof -
  have "\<And>cls idx. \<forall>i \<in> set idx. i < length bands \<Longrightarrow>
          \<exists>cal. guarded_loop c cls bands idx = Inr cal"
    using assms gain_bias_loop_in_bounds [of _ bands]
    by (auto simp: guarded_loop_def band_at_def)
  note g = this
  have tm: "\<exists>cal. guarded_loop c tm_class bands [0, 1, 2, 3, 4, 5, 6] = Inr cal"
    using assms by (intro g) auto
  have etm: "\<exists>cal. guarded_loop c etm_class bands [0, 1, 2, 3, 4, 5, 6, 7] = Inr cal"
    using assms by (intro g) auto
  have oli: "\<exists>cal. guarded_loop c oli_class bands [0, 1, 2, 3, 4, 5, 6, 7, 8, 9, 10] = Inr cal"
    using assms by (intro g) auto
  from tm etm oli show ?thesis
    by (simp add: gains_and_biases_def)
qed

lemma write_calibration_in_bounds:
  assumes "11 \<le> length bands"
  shows "snd (write_calibration c hdf inst bands) = None"
proof -
  from gains_and_biases_in_bounds [OF assms] obtain cal where
    "gains_and_biases c inst bands = Inr cal" by blast
  with assms show ?thesis
    by (simp add: write_calibration_def put_pan_def band_at_def)
qed

lemma write_global_attributes_in_bounds:
  assumes "11 \<le> length (band xml)"
  shows "snd (write_global_attributes c hdf xml) = None"
  using assms write_calibration_in_bounds [OF assms]
  by (auto simp: write_global_attributes_def Let_def snd_seq band_at_def)

text \<open>
  The errors of \<^verbatim>\<open>create_hdf_metadata\<close> itself are those of the loop over the table:
  once the loop has succeeded there are sixteen bands or more, and the global
  attributes read no band beyond index 10.
\<close>

lemma snd_create_hdf_metadata:
  "snd (create_hdf_metadata c hdf_file xml)
     = snd (sds_loop c (band xml) (enumerate 0 hdfname_mapping))"
proof (cases "snd (sds_loop c (band xml) (enumerate 0 hdfname_mapping))")
  case None
  from sds_loop_sixteen [OF None] have "11 \<le> length (band xml)" by simp
  from write_global_attributes_in_bounds [OF this] None show ?thesis
    by (simp add: create_hdf_metadata_def snd_seq)
next
  case (Some e)
  then show ?thesis
    by (simp add: create_hdf_metadata_def snd_seq)
qed

lemma global_attributes_written:
  assumes "snd (sds_loop c (band xml) (enumerate 0 hdfname_mapping)) = None"
    and "x \<in> set (fst (write_global_attributes c File_id xml))"
  shows "x \<in> set (fst (create_hdf_metadata c hdf_file xml))"
  using assms by (simp add: create_hdf_metadata_def fst_seq)

text \<open>
  \<^verbatim>\<open>convert_hdf_to_old_hdf\<close> counts every band against \<^verbatim>\<open>MAX_ENVI_BANDS\<close>, in a row
  of the table or not.
\<close>

lemma too_many_bands:
  assumes "snd (create_hdf_metadata c hdf_file xml) = None"
    and "MAX_ENVI_BANDS c < length (band xml)"
    and "0 \<le> envi_indx (band xml)" and "envi_indx (band xml) < int (length (band xml))"
  shows "snd (convert_hdf_to_old_hdf c hdf_file xml) = Some Too_many_bands"
  using assms by (simp add: convert_hdf_to_old_hdf_def Let_def snd_seq)

lemma sds_loop_table_filter:
  "sds_loop c (filter (\<lambda>b. name b \<in> set (map fst hdfname_mapping)) bands)
       (enumerate 0 hdfname_mapping)
     = sds_loop c bands (enumerate 0 hdfname_mapping)"
proof -
  have "snd ` set (enumerate 0 hdfname_mapping) = set hdfname_mapping"
    by (metis map_snd_enumerate set_map)
  then have "\<forall>s \<in> set (enumerate 0 hdfname_mapping).
      \<forall>b. name b = fst (snd s) \<longrightarrow> name b \<in> set (map fst hdfname_mapping)"
    by auto
  from sds_loop_filter [of "enumerate 0 hdfname_mapping"
      "\<lambda>b. name b \<in> set (map fst hdfname_mapping)", OF this]
  show ?thesis .
qed

text \<open>
  C10, as the code has it.  The loop over the table does the same calls and returns
  the same result with and without the bands whose name is in no row: no data set is
  created for such a band, no attribute of a data set is written for it, its data
  type is not looked at; and \<^verbatim>\<open>create_hdf_metadata\<close> returns the same error, or
  none, with and without them.
\<close>

theorem unmatched_bands_ignored:
  "sds_loop c (filter (\<lambda>b. name b \<in> set (map fst hdfname_mapping)) bands)
       (enumerate 0 hdfname_mapping)
     = sds_loop c bands (enumerate 0 hdfname_mapping) \<and>
   snd (create_hdf_metadata c hdf_file
          \<lparr>global_meta = g,
           band = filter (\<lambda>b. name b \<in> set (map fst hdfname_mapping)) bands\<rparr>)
     = snd (create_hdf_metadata c hdf_file \<lparr>global_meta = g, band = bands\<rparr>)"
  using sds_loop_table_filter [of c bands]
  by (simp add: snd_create_hdf_metadata)

lemma junk_band_unmatched: "name junk_band \<notin> set (map fst hdfname_mapping)"
  by (simp add: junk_band_def example_band_def hdfname_mapping_def)

lemma filter_example_bands:
  "filter (\<lambda>b. name b \<in> set (map fst hdfname_mapping)) example_bands = example_bands"
proof -
  have "set (map name example_bands) = set (map fst hdfname_mapping)"
    by (simp only: example_names)
  then show ?thesis by (auto simp: filter_id_conv)
qed

lemma sds_loop_junk:
  "sds_loop c (junk_band # example_bands) (enumerate 0 hdfname_mapping)
     = sds_loop c example_bands (enumerate 0 hdfname_mapping)"
  using sds_loop_table_filter [of c "junk_band # example_bands"]
    junk_band_unmatched filter_example_bands
  by simp

theorem unmatched_bands_ignored_witness:
  "name junk_band \<notin> set (map fst hdfname_mapping) \<and>
   data_type (junk_band\<lparr>data_type := ESPA_OTHER\<rparr>) = ESPA_OTHER \<and>
   sds_loop example_consts (junk_band\<lparr>data_type := ESPA_OTHER\<rparr> # example_bands)
       (enumerate 0 hdfname_mapping)
     = sds_loop example_consts example_bands (enumerate 0 hdfname_mapping) \<and>
   snd (create_hdf_metadata example_consts ''scene.hdf''
          \<lparr>global_meta = example_global ''TM'',
           band = junk_band\<lparr>data_type := ESPA_OTHER\<rparr> # example_bands\<rparr>) = None"
proof -
  have un: "name (junk_band\<lparr>data_type := ESPA_OTHER\<rparr>) \<notin> set (map fst hdfname_mapping)"
    using junk_band_unmatched by simp
  from unmatched_bands_ignored
        [of example_consts "junk_band\<lparr>data_type := ESPA_OTHER\<rparr> # example_bands"
           "''scene.hdf''" "example_global ''TM''"]
    un filter_example_bands
  have "sds_loop example_consts (junk_band\<lparr>data_type := ESPA_OTHER\<rparr> # example_bands)
       (enumerate 0 hdfname_mapping)
     = sds_loop example_consts example_bands (enumerate 0 hdfname_mapping)"
    and "snd (create_hdf_metadata example_consts ''scene.hdf''
          \<lparr>global_meta = example_global ''TM'',
           band = junk_band\<lparr>data_type := ESPA_OTHER\<rparr> # example_bands\<rparr>)
      = snd (create_hdf_metadata example_consts ''scene.hdf''
          \<lparr>global_meta = example_global ''TM'', band = example_bands\<rparr>)"
    by simp_all
  with junk_band_unmatched sds_loop_example show ?thesis
    by (simp add: snd_create_hdf_metadata)
qed

theorem unmatched_band_counterexample:
  "name junk_band \<notin> set (map fst hdfname_mapping) \<and>
   production_date junk_band = ''1999-12-31'' \<and>
   toa_gain junk_band = 99 \<and>
   snd (create_hdf_metadata example_consts ''scene.hdf''
          \<lparr>global_meta = example_global ''TM'', band = junk_band # example_bands\<rparr>) = None \<and>
   Put_attr_string File_id ''ProductionDate'' ''1999-12-31''
     \<in> set (fst (create_hdf_metadata example_consts ''scene.hdf''
          \<lparr>global_meta = example_global ''TM'', band = junk_band # example_bands\<rparr>)) \<and>
   Put_attr_double File_id ''ReflGains'' DFNT_FLOAT64 [99, 1, 2, 3, 4, 6]
     \<in> set (fst (create_hdf_metadata example_consts ''scene.hdf''
          \<lparr>global_meta = example_global ''TM'', band = junk_band # example_bands\<rparr>))"
proof -
  let ?xml = "\<lparr>global_meta = example_global ''TM'', band = junk_band # example_bands\<rparr>"
  have loop: "snd (sds_loop example_consts (band ?xml) (enumerate 0 hdfname_mapping)) = None"
    by (simp add: sds_loop_junk sds_loop_example)
  then have ok: "snd (create_hdf_metadata example_consts ''scene.hdf'' ?xml) = None"
    by (simp add: snd_create_hdf_metadata)
  have exist: "gain_bias_exist example_consts ((junk_band # example_bands) ! 0)"
    by (simp add: gain_bias_exist_def junk_band_def example_band_def example_consts_def)
  have len: "7 \<le> length (junk_band # example_bands)"
    by (simp add: example_bands_length)
  have cal: "write_calibration example_consts File_id ''TM'' (junk_band # example_bands) = calls
     [Put_attr_double File_id ''ReflGains'' DFNT_FLOAT64 [99, 1, 2, 3, 4, 6],
      Put_attr_double File_id ''ReflBias'' DFNT_FLOAT64 [- 99, - 1, - 2, - 3, - 4, - 6],
      Put_attr_double File_id ''ThermalGains'' DFNT_FLOAT64 [5],
      Put_attr_double File_id ''ThermalBias'' DFNT_FLOAT64 [- 5]]"
    using tm_write [OF len exist, of File_id]
    by (simp add: example_gain_at example_bias_at example_bands_gain example_bands_bias)
       (simp add: junk_band_def example_band_def)
  have date: "Put_attr_string File_id ''ProductionDate'' ''1999-12-31''
      \<in> set (fst (write_global_attributes example_consts File_id ?xml))"
    by (simp add: write_global_attributes_def Let_def fst_seq snd_seq band_at_def cal
        example_global_def)
       (simp add: junk_band_def example_band_def)
  have gains: "Put_attr_double File_id ''ReflGains'' DFNT_FLOAT64 [99, 1, 2, 3, 4, 6]
      \<in> set (fst (write_global_attributes example_consts File_id ?xml))"
    by (simp add: write_global_attributes_def Let_def fst_seq snd_seq band_at_def cal
        example_global_def)
  from junk_band_unmatched ok
    global_attributes_written [OF loop date] global_attributes_written [OF loop gains]
  show ?thesis
    by (simp add: junk_band_def example_band_def)
qed

section \<open>The band of the ENVI header\<close>

lemma indx_loop_cases:
  "(indx_loop bands i indx = indx \<and>
      \<not> list_ex (\<lambda>b. name b = fst (hd hdfname_mapping)) bands) \<or>
   (int i \<le> indx_loop bands i indx \<and> indx_loop bands i indx < int (i + length bands) \<and>
      name (bands ! (nat (indx_loop bands i indx) - i)) = fst (hd hdfname_mapping))"
proof (induction bands arbitrary: i indx)
  case Nil
  then show ?case by simp
next
  case (Cons b bands)
  let ?indx' = "if name b = fst (hd hdfname_mapping) then int i else indx"
  let ?r = "indx_loop bands (Suc i) ?indx'"
  have r: "indx_loop (b # bands) i indx = ?r" by simp
  from Cons.IH [of "Suc i" ?indx']
  consider (keep) "?r = ?indx'" "\<not> list_ex (\<lambda>b. name b = fst (hd hdfname_mapping)) bands"
    | (later) "int (Suc i) \<le> ?r" "?r < int (Suc i + length bands)"
        "name (bands ! (nat ?r - Suc i)) = fst (hd hdfname_mapping)"
    by blast
  then show ?case
  proof cases
    case keep
    show ?thesis
    proof (cases "name b = fst (hd hdfname_mapping)")
      case True
      with keep show ?thesis by simp
    next
      case False
      with keep show ?thesis by simp
    qed
  next
    case later
    from later(1) have "nat ?r - i = Suc (nat ?r - Suc i)" by linarith
    with later show ?thesis
      by (simp only: r) (simp del: indx_loop.simps)
  qed
qed

lemma envi_indx_found:
  assumes "bnd_found (hd hdfname_mapping) bands"
  shows "0 \<le> envi_indx bands \<and> envi_indx bands < int (length bands) \<and>
         name (bands ! nat (envi_indx bands)) = fst (hd hdfname_mapping)"
  using assms indx_loop_cases [of bands 0 "- 99"]
  by (auto simp: envi_indx_def bnd_found_def)

lemma sds_loop_band1:
  assumes "snd (sds_loop c bands (enumerate 0 hdfname_mapping)) = None"
  shows "bnd_found (hd hdfname_mapping) bands"
  using assms
  by (simp add: hdfname_mapping_def NOLD_SR_def snd_seq split: if_splits)

text \<open>
  C9.  When \<^verbatim>\<open>create_hdf_metadata\<close> has returned \<^verbatim>\<open>SUCCESS\<close>, whatever the library
  did, a band is named \<^verbatim>\<open>sr_band1\<close>: the search leaves an index that is not - 99,
  lies within the band array and is that of a band of this name, and the conversion
  does not read outside the array.
\<close>

theorem envi_index_found:
  assumes "fst (run lib (create_hdf_metadata c hdf_file xml)) = None"
  shows "list_ex (\<lambda>b. name b = ''sr_band1'') (band xml) \<and>
         envi_indx (band xml) \<noteq> - 99 \<and>
         0 \<le> envi_indx (band xml) \<and> envi_indx (band xml) < int (length (band xml)) \<and>
         name (band xml ! nat (envi_indx (band xml))) = ''sr_band1'' \<and>
         snd (convert_hdf_to_old_hdf c hdf_file xml) \<noteq> Some Out_of_bounds"
proof -
  from run_success [OF assms] have ok: "snd (create_hdf_metadata c hdf_file xml) = None" .
  then have "snd (sds_loop c (band xml) (enumerate 0 hdfname_mapping)) = None"
    by (simp add: snd_create_hdf_metadata)
  from sds_loop_band1 [OF this] have found: "bnd_found (hd hdfname_mapping) (band xml)" .
  have first: "fst (hd hdfname_mapping) = ''sr_band1''"
    by (simp add: hdfname_mapping_def)
  from envi_indx_found [OF found] first
  have indx: "0 \<le> envi_indx (band xml)" "envi_indx (band xml) < int (length (band xml))"
    "name (band xml ! nat (envi_indx (band xml))) = ''sr_band1''"
    by simp_all
  from found first have ex: "list_ex (\<lambda>b. name b = ''sr_band1'') (band xml)"
    by (simp add: bnd_found_def)
  from ok indx have "snd (convert_hdf_to_old_hdf c hdf_file xml) \<noteq> Some Out_of_bounds"
    by (simp add: convert_hdf_to_old_hdf_def Let_def snd_seq)
  with ex indx show ?thesis by simp
qed

lemma envi_indx_example: "envi_indx example_bands = 0"
  by (simp add: envi_indx_def example_bands_def hdfname_mapping_def example_band_def)

theorem envi_index_found_witness:
  "fst (run (\<lambda>d x. True)
          (create_hdf_metadata example_consts ''scene.hdf'' (example_scene ''TM''))) = None \<and>
   envi_indx (band (example_scene ''TM'')) = 0 \<and>
   name (band (example_scene ''TM'') ! 0) = ''sr_band1'' \<and>
   snd (convert_hdf_to_old_hdf example_consts ''scene.hdf'' (example_scene ''TM''))
     \<noteq> Some Out_of_bounds"
proof -
  have ok: "fst (run (\<lambda>d x. True)
          (create_hdf_metadata example_consts ''scene.hdf'' (example_scene ''TM''))) = None"
    by (simp add: run_all_succeed snd_create_hdf_metadata example_scene_def sds_loop_example)
  from envi_index_found [OF ok] ok show ?thesis
    by (simp add: example_scene_def envi_indx_example)
qed

section \<open>Scale factor and offset\<close>


end
